theory Spec2Isabelle
  imports Complex_Main "HOL-Library.Sublist"
begin

section \<open>Conventions of the embedding\<close>

text \<open>
  The two screens (\<^verbatim>\<open>src/screens/CreateRouteScreen.tsx\<close> and the map screen,
  \<^verbatim>\<open>unnamed/part_000\<close>) are React components: every handler reads the component state of
  the current render and posts state updates. A handler is embedded as a function from the
  state it reads to the state it leaves behind, together with the effects it issues (alerts,
  backend requests, calls to the geocoding service).

  \<^item> A JavaScript \<^verbatim>\<open>number\<close> is embedded as a \<^typ>\<open>real\<close>: comparisons, \<^verbatim>\<open>Math.abs\<close>,
    \<^verbatim>\<open>Math.min\<close> and \<^verbatim>\<open>Math.max\<close> are exact on doubles, while sums and products are taken
    without rounding, and \<^verbatim>\<open>NaN\<close> and the infinities are left out.
  \<^item> A JavaScript string is embedded as a \<^typ>\<open>string\<close>, one \<^typ>\<open>char\<close> for each code unit
    (code units above 255 are left out).
  \<^item> A value that may be \<^verbatim>\<open>null\<close> or \<^verbatim>\<open>undefined\<close> is an \<^typ>\<open>'a option\<close>.
  \<^item> A call that may throw (a rejected promise) returns a sum with the error on the left (\<open>Inl\<close>).
  \<^item> Field names that several source types share carry a prefix for the type
    (\<open>wd_\<close> for \<^verbatim>\<open>WaypointData\<close>, \<open>mi_\<close> for \<^verbatim>\<open>MediaItem\<close>, \<open>mu_\<close> for \<^verbatim>\<open>MediaUrl\<close>, ...).
  \<^item> The geocoding service, the backend client, the clock and the identifiers that the
    backend and the random generator give are outside the repository; they are parameters
    of the handlers that use them.
\<close>

text \<open>
  A thrown value: an \<^verbatim>\<open>Error\<close> object with its message, or any other value (such as the
  error object of the backend client).
\<close>

datatype js_error = Error string | Thrown string

subsection \<open>Geographic values\<close>

record GeoPoint =
  latitude :: real
  longitude :: real

record Region = GeoPoint +
  latitudeDelta :: real
  longitudeDelta :: real

text \<open>
  Modelled from the spec: the type \<^verbatim>\<open>WaypointData\<close> is declared in \<^verbatim>\<open>types/route\<close> and
  \<^verbatim>\<open>hooks/useRoutes\<close>, which are not among the sources. It is the persisted shape
  \<^verbatim>\<open>{lat, lng, title, description}\<close> of a waypoint.
\<close>

record WaypointData =
  lat :: real
  lng :: real
  wd_title :: string
  wd_description :: string

section \<open>Map screen: the draggable bottom panel\<close>

record SnapPoints =
  collapsed :: real
  mid :: real
  expanded :: real


text \<open>The gesture handler's \<^verbatim>\<open>State\<close> enumeration.\<close>

datatype GestureState = UNDETERMINED | FAILED | BEGAN | CANCELLED | ACTIVE | END

record PanEvent =
  state :: GestureState
  translationY :: real
  velocityY :: real

text \<open>
  The panel's state: \<open>translateY\<close> is the value the animated offset is set to or is
  settling at, \<open>lastGesture\<close>, \<open>scrollOffset\<close> and \<open>isDragging\<close> are the three refs,
  \<open>currentSnapPoint\<close> is the React state.
\<close>

record Panel =
  translateY :: real
  lastGesture :: real
  scrollOffset :: real
  isDragging :: bool
  currentSnapPoint :: real


text \<open>\<^verbatim>\<open>snapTo\<close>: start the spring animation towards \<open>point\<close> and record it.\<close>

definition snapTo :: "real \<Rightarrow> Panel \<Rightarrow> Panel" where
  "snapTo point p = p\<lparr>translateY := point, currentSnapPoint := point\<rparr>"

text \<open>\<^verbatim>\<open>onGestureEvent\<close>: the offset follows the drag, clamped between the snap points.\<close>

definition onGestureEvent :: "SnapPoints \<Rightarrow> PanEvent \<Rightarrow> Panel \<Rightarrow> Panel" where
  "onGestureEvent sp ev p =
     (let newTranslateY = lastGesture p + translationY ev;
          maxTranslate = collapsed sp;
          minTranslate = expanded sp;
          constrainedTranslate = max minTranslate (min maxTranslate newTranslateY)
      in p\<lparr>isDragging := True, translateY := constrainedTranslate\<rparr>)"




text \<open>\<^verbatim>\<open>handleScroll\<close>: the list's scroll position moves the panel unless a drag is active.\<close>

definition handleScroll :: "SnapPoints \<Rightarrow> real \<Rightarrow> Panel \<Rightarrow> Panel" where
  "handleScroll sp contentOffset_y p =
     (if isDragging p then p
      else
        (let p1 = p\<lparr>scrollOffset := contentOffset_y\<rparr>;
             p2 = (if contentOffset_y > 0 \<and> currentSnapPoint p = collapsed sp
                   then snapTo (mid sp) p1 else p1)
         in if contentOffset_y = 0 \<and> currentSnapPoint p \<noteq> collapsed sp
            then snapTo (collapsed sp) p2 else p2))"



section \<open>The persisted route\<close>

text \<open>The type tag of a media item: \<^verbatim>\<open>'image' | 'video' | 'youtube'\<close>.\<close>

datatype MediaType = Image | Video | Youtube

text \<open>
  Modelled from the spec: the type \<^verbatim>\<open>MediaUrl\<close> is declared in \<^verbatim>\<open>types/route\<close>, which is not
  among the sources. It is a stored attachment, \<^verbatim>\<open>{type, url, description}\<close>; the screen
  writes the description of a media item, which may be missing.
\<close>

record MediaUrl =
  mu_type :: MediaType
  url :: string
  mu_description :: "string option"

record RouteOptions =
  reverse :: bool
  closeLoop :: bool
  doubleBack :: bool

record RouteMetadata =
  md_waypoints :: "WaypointData list option"
  pins :: "WaypointData list option"
  options :: "RouteOptions option"
  coordinates :: "GeoPoint list option"

text \<open>
  Modelled from the spec: the row type of the table \<^verbatim>\<open>routes\<close> is declared in
  \<^verbatim>\<open>lib/database.types\<close> and \<^verbatim>\<open>types/route\<close>, which are not among the sources. The columns
  are those of the persisted route record of the specification, which are the ones
  \<^verbatim>\<open>handleCreate\<close> writes. Every column may be missing in a stored row. In the payload of
  an update a missing column is one that the update does not write.
\<close>

record Route =
  name :: "string option"
  route_description :: "string option"
  difficulty :: "string option"
  spot_type :: "string option"
  visibility :: "string option"
  best_season :: "string option"
  best_times :: "string option"
  vehicle_types :: "string list option"
  activity_level :: "string option"
  spot_subtype :: "string option"
  transmission_type :: "string option"
  category :: "string option"
  creator_id :: "string option"
  updated_at :: "string option"
  created_at :: "string option"
  is_public :: "bool option"
  waypoint_details :: "WaypointData list option"
  metadata :: "RouteMetadata option"
  suggested_exercises :: "string option"
  media_attachments :: "MediaUrl list option"
  drawing_mode :: "string option"

section \<open>Map screen: the viewport over the loaded routes\<close>

text \<open>
  \<^verbatim>\<open>route.waypoint_details || route.metadata?.waypoints || []\<close>: an array, even an empty
  one, is truthy, so only a missing \<open>waypoint_details\<close> falls through to the metadata.
\<close>

definition route_waypoints :: "Route \<Rightarrow> WaypointData list" where
  "route_waypoints route =
     (case waypoint_details route of
        Some ws \<Rightarrow> ws
      | None \<Rightarrow>
          (case metadata route of
             None \<Rightarrow> []
           | Some m \<Rightarrow> (case md_waypoints m of Some ws \<Rightarrow> ws | None \<Rightarrow> [])))"

text \<open>\<^verbatim>\<open>Math.min(...xs)\<close> and \<^verbatim>\<open>Math.max(...xs)\<close> on a list with first element \<open>x\<close>.\<close>

definition Math_min :: "real \<Rightarrow> real list \<Rightarrow> real" where
  "Math_min x xs = fold min xs x"

definition Math_max :: "real \<Rightarrow> real list \<Rightarrow> real" where
  "Math_max x xs = fold max xs x"

definition getMapRegion :: "Route list \<Rightarrow> Region option" where
  "getMapRegion routes =
     (if length routes = 0 then None
      else
        (case concat (map route_waypoints routes) of
           [] \<Rightarrow> None
         | w # ws \<Rightarrow>
             (let minLat = Math_min (lat w) (map lat ws);
                  maxLat = Math_max (lat w) (map lat ws);
                  minLng = Math_min (lng w) (map lng ws);
                  maxLng = Math_max (lng w) (map lng ws);
                  latPadding = (maxLat - minLat) * 0.1;
                  lngPadding = (maxLng - minLng) * 0.1;
                  minDelta = 0.01;
                  latDelta = max ((maxLat - minLat) + latPadding) minDelta;
                  lngDelta = max ((maxLng - minLng) + lngPadding) minDelta
              in Some \<lparr>latitude = (minLat + maxLat) / 2,
                       longitude = (minLng + maxLng) / 2,
                       latitudeDelta = latDelta,
                       longitudeDelta = lngDelta\<rparr>)))"

text \<open>
  The effect that follows \<^verbatim>\<open>getMapRegion\<close>: the region state takes the computed region
  when there is one.
\<close>

definition updateRegion :: "Route list \<Rightarrow> Region \<Rightarrow> Region" where
  "updateRegion routes region =
     (case getMapRegion routes of Some newRegion \<Rightarrow> newRegion | None \<Rightarrow> region)"

text \<open>A point lies in the viewport when it is within half the span of the centre.\<close>

definition in_viewport :: "Region \<Rightarrow> WaypointData \<Rightarrow> bool" where
  "in_viewport r w \<longleftrightarrow>
     latitude r - latitudeDelta r / 2 \<le> lat w \<and> lat w \<le> latitude r + latitudeDelta r / 2 \<and>
     longitude r - longitudeDelta r / 2 \<le> lng w \<and> lng w \<le> longitude r + longitudeDelta r / 2"

section \<open>Strings\<close>

text \<open>
  \<^verbatim>\<open>String.prototype.trim\<close> removes white space at both ends. Of the white space of the
  language these are the code units up to 255: tab, line feed, vertical tab, form feed,
  carriage return, space and the no-break space.
\<close>

definition isWhiteSpace :: "char \<Rightarrow> bool" where
  "isWhiteSpace c \<longleftrightarrow> of_char c \<in> {9, 10, 11, 12, 13, 32, 160 :: nat}"

definition trim :: "string \<Rightarrow> string" where
  "trim s = rev (dropWhile isWhiteSpace (rev (dropWhile isWhiteSpace s)))"

definition startsWith :: "string \<Rightarrow> string \<Rightarrow> bool" where
  "startsWith s p \<longleftrightarrow> take (length p) s = p"

text \<open>\<^verbatim>\<open>Array.prototype.join\<close> on strings.\<close>

fun join :: "string \<Rightarrow> string list \<Rightarrow> string" where
  "join sep [] = []"
| "join sep [x] = x"
| "join sep (x # y # ys) = x @ sep @ join sep (y # ys)"

text \<open>
  \<^verbatim>\<open>.filter(Boolean)\<close> on an array of strings that may be missing: the missing and the
  empty ones go.
\<close>

definition filter_Boolean :: "string option list \<Rightarrow> string list" where
  "filter_Boolean xs =
     List.map_filter (\<lambda>x. case x of None \<Rightarrow> None | Some s \<Rightarrow> if s = [] then None else Some s) xs"

text \<open>The decimal numeral of a natural number, as a template literal prints it.\<close>

definition digit :: "nat \<Rightarrow> char" where
  "digit d = ''0123456789'' ! d"

function string_of_nat :: "nat \<Rightarrow> string" where
  "string_of_nat n = (if n < 10 then [digit n] else string_of_nat (n div 10) @ [digit (n mod 10)])"
  by pat_completeness auto
termination
  by (relation "measure (\<lambda>n. n)") auto

declare string_of_nat.simps [simp del]

text \<open>\<^verbatim>\<open>s.split(c).pop()\<close>: what follows the last \<open>c\<close> in \<open>s\<close>, all of \<open>s\<close> without a \<open>c\<close>.\<close>

definition split_pop :: "char \<Rightarrow> string \<Rightarrow> string" where
  "split_pop c s = rev (takeWhile (\<lambda>x. x \<noteq> c) (rev s))"

text \<open>\<^verbatim>\<open>s || d\<close> on strings: the empty string is falsy.\<close>

definition or_else :: "string \<Rightarrow> string \<Rightarrow> string" where
  "or_else s d = (if s = [] then d else s)"

text \<open>\<^verbatim>\<open>Array.prototype.findIndex\<close>: the first index that satisfies \<open>P\<close>, or \<open>-1\<close>.\<close>

fun findIndexFrom :: "int \<Rightarrow> ('a \<Rightarrow> bool) \<Rightarrow> 'a list \<Rightarrow> int" where
  "findIndexFrom i P [] = - 1"
| "findIndexFrom i P (x # xs) = (if P x then i else findIndexFrom (i + 1) P xs)"

definition findIndex :: "('a \<Rightarrow> bool) \<Rightarrow> 'a list \<Rightarrow> int" where
  "findIndex P xs = findIndexFrom 0 P xs"

text \<open>The pairs \<open>(index, element)\<close> that the callbacks of \<^verbatim>\<open>map\<close> and \<^verbatim>\<open>filter\<close> receive.\<close>

definition indexed :: "'a list \<Rightarrow> (nat \<times> 'a) list" where
  "indexed xs = zip [0 ..< length xs] xs"

section \<open>The geocoding service\<close>

text \<open>
  \<^verbatim>\<open>Location.LocationGeocodedAddress\<close>, with the fields the handlers read.
\<close>

record Address =
  street :: "string option"
  city :: "string option"
  country :: "string option"

text \<open>A search result: \<^verbatim>\<open>{...address[0], coords: {latitude, longitude}}\<close>.\<close>

record SearchResult = Address +
  coords :: "GeoPoint option"

text \<open>
  The service (\<^verbatim>\<open>expo-location\<close>) is outside the repository. It is a parameter: three
  operations over a state \<open>'g\<close> of the service's own, so that the same call may answer
  differently the next time; each either throws or returns.
\<close>

record 'g LocationApi =
  geocodeAsync :: "string \<Rightarrow> 'g \<Rightarrow> (js_error + GeoPoint list) \<times> 'g"
  reverseGeocodeAsync :: "GeoPoint \<Rightarrow> 'g \<Rightarrow> (js_error + Address list) \<times> 'g"
  getCurrentPositionAsync :: "'g \<Rightarrow> (js_error + GeoPoint) \<times> 'g"

section \<open>Location search (both screens)\<close>

text \<open>
  \<^verbatim>\<open>handleSearch\<close> is the same function in both screens. Its state: the three pieces of
  React state of the search box and the handle of the timer scheduled last.
\<close>

record SearchUi =
  searchQuery :: string
  searchResults :: "SearchResult list"
  showSearchResults :: bool
  searchTimeout :: "nat option"

subsection \<open>The lookup that the timer runs\<close>

text \<open>A geocode call that was issued, with its answer.\<close>

type_synonym GeocodeCall = "string \<times> (js_error + GeoPoint list)"

text \<open>
  \<^verbatim>\<open>const searchTerms = [`${query}, Sweden`, `${query}, Gothenburg`, `${query}, Stockholm`,
  `${query}, Malmo`, query]\<close>, where the last letter of the fourth suffix is the o with
  diaeresis, code unit 246.
\<close>

definition searchTerms :: "string \<Rightarrow> string list" where
  "searchTerms query =
     [query @ '', Sweden'', query @ '', Gothenburg'', query @ '', Stockholm'',
      query @ '', Malm'' @ [char_of (246 :: nat)], query]"

text \<open>
  \<^verbatim>\<open>for (const term of searchTerms) { results = await geocodeAsync(term);
  if (results.length > 0) break; }\<close>, with the calls it issued.
\<close>

fun tryTerms ::
  "'g LocationApi \<Rightarrow> string list \<Rightarrow> GeoPoint list \<Rightarrow> 'g
     \<Rightarrow> (js_error + GeoPoint list) \<times> GeocodeCall list \<times> 'g" where
  "tryTerms api [] results g = (Inr results, [], g)"
| "tryTerms api (t # ts) results g =
     (case geocodeAsync api t g of
        (Inl e, g') \<Rightarrow> (Inl e, [(t, Inl e)], g')
      | (Inr rs, g') \<Rightarrow>
          if length rs > 0 then (Inr rs, [(t, Inr rs)], g')
          else (case tryTerms api ts rs g' of
                  (res, calls, g'') \<Rightarrow> (res, (t, Inr rs) # calls, g'')))"

definition geocodeWithFallback ::
  "'g LocationApi \<Rightarrow> string \<Rightarrow> 'g \<Rightarrow> (js_error + GeoPoint list) \<times> GeocodeCall list \<times> 'g" where
  "geocodeWithFallback api query g =
     (case geocodeAsync api query g of
        (Inl e, g') \<Rightarrow> (Inl e, [(query, Inl e)], g')
      | (Inr results, g') \<Rightarrow>
          if length results = 0 then
            (case tryTerms api (searchTerms query) results g' of
               (res, calls, g'') \<Rightarrow> (res, (query, Inr results) # calls, g''))
          else (Inr results, [(query, Inr results)], g'))"

text \<open>
  \<^verbatim>\<open>Promise.all(results.map(async result => ...))\<close>: every reverse-geocode call is issued,
  in order; the whole fails if one of them throws.
\<close>

fun reverseGeocodeEach ::
  "'g LocationApi \<Rightarrow> GeoPoint list \<Rightarrow> 'g \<Rightarrow> (js_error + Address list) list \<times> 'g" where
  "reverseGeocodeEach api [] g = ([], g)"
| "reverseGeocodeEach api (r # rs) g =
     (case reverseGeocodeAsync api r g of
        (a, g') \<Rightarrow> (case reverseGeocodeEach api rs g' of (as, g'') \<Rightarrow> (a # as, g'')))"

fun Promise_all :: "(js_error + 'a) list \<Rightarrow> js_error + 'a list" where
  "Promise_all [] = Inr []"
| "Promise_all (Inl e # xs) = Inl e"
| "Promise_all (Inr x # xs) = (case Promise_all xs of Inl e \<Rightarrow> Inl e | Inr ys \<Rightarrow> Inr (x # ys))"

definition toSearchResult :: "GeoPoint \<Rightarrow> Address list \<Rightarrow> SearchResult" where
  "toSearchResult result address =
     (let c = Some \<lparr>latitude = latitude result, longitude = longitude result\<rparr>
      in case address of
           [] \<Rightarrow> \<lparr>street = None, city = None, country = None, coords = c\<rparr>
         | a # _ \<Rightarrow> \<lparr>street = street a, city = city a, country = country a, coords = c\<rparr>)"

text \<open>
  \<^verbatim>\<open>a.coords?.latitude === addr.coords?.latitude && a.coords?.longitude === addr.coords?.longitude\<close>
\<close>

definition sameCoords :: "SearchResult \<Rightarrow> SearchResult \<Rightarrow> bool" where
  "sameCoords addr a \<longleftrightarrow>
     map_option latitude (coords a) = map_option latitude (coords addr) \<and>
     map_option longitude (coords a) = map_option longitude (coords addr)"

text \<open>
  \<^verbatim>\<open>addresses.filter((addr, index, self) => addr && addr.coords &&
  index === self.findIndex(a => ...))\<close>
\<close>

definition uniqueAddresses :: "SearchResult list \<Rightarrow> SearchResult list" where
  "uniqueAddresses addresses =
     map snd (filter (\<lambda>(index, addr). coords addr \<noteq> None \<and>
                        int index = findIndex (sameCoords addr) addresses)
                (indexed addresses))"

text \<open>
  The callback of \<^verbatim>\<open>setTimeout\<close>: geocode with the fallbacks, reverse-geocode the hits,
  publish the deduplicated list. An exception anywhere is logged and nothing changes.
\<close>

definition lookup ::
  "'g LocationApi \<Rightarrow> string \<Rightarrow> 'g \<Rightarrow> 'u SearchUi_scheme
     \<Rightarrow> 'u SearchUi_scheme \<times> GeocodeCall list \<times> 'g" where
  "lookup api query g ui =
     (case geocodeWithFallback api query g of
        (Inl e, calls, g') \<Rightarrow> (ui, calls, g')
      | (Inr results, calls, g') \<Rightarrow>
          if length results > 0 then
            (case reverseGeocodeEach api results g' of
               (answers, g'') \<Rightarrow>
                 (case Promise_all answers of
                    Inl e \<Rightarrow> (ui, calls, g'')
                  | Inr as \<Rightarrow>
                      (ui\<lparr>searchResults := uniqueAddresses (map2 toSearchResult results as),
                          showSearchResults := True\<rparr>, calls, g'')))
          else (ui, calls, g'))"

subsection \<open>The debounce\<close>

text \<open>
  The timers of the runtime: a scheduled callback has a handle, a time (in milliseconds)
  from which it may run, and the query its closure holds. \<open>SearchBox\<close> adds to the search
  state the pending timers, the next free handle, the state of the geocoding service and
  the log of the queries whose lookup has run. Time is counted in whole milliseconds;
  a call of \<^verbatim>\<open>handleSearch\<close> reads the state that the call before it has left (the
  component is rendered again between two input events), and a lookup that runs is
  carried out in one step.
\<close>

record Timer =
  handle :: nat
  due :: nat
  timer_query :: string

record 'g SearchBox = SearchUi +
  pending :: "Timer list"
  nextHandle :: nat
  service :: 'g
  lookups :: "string list"

definition clearTimeout :: "nat \<Rightarrow> ('g, 'u) SearchBox_scheme \<Rightarrow> ('g, 'u) SearchBox_scheme" where
  "clearTimeout h b = b\<lparr>pending := filter (\<lambda>t. handle t \<noteq> h) (pending b)\<rparr>"

text \<open>\<^verbatim>\<open>handleSearch(query)\<close>, called at time \<open>now\<close>.\<close>

definition handleSearch ::
  "nat \<Rightarrow> string \<Rightarrow> ('g, 'u) SearchBox_scheme \<Rightarrow> ('g, 'u) SearchBox_scheme" where
  "handleSearch now query b =
     (let b1 = b\<lparr>searchQuery := query\<rparr>;
          b2 = (case searchTimeout b1 of Some h \<Rightarrow> clearTimeout h b1 | None \<Rightarrow> b1)
      in if trim query = [] then b2\<lparr>searchResults := [], showSearchResults := False\<rparr>
         else
           (let timeout = nextHandle b2
            in b2\<lparr>pending := pending b2 @ [\<lparr>handle = timeout, due = now + 300, timer_query = query\<rparr>],
                  nextHandle := timeout + 1,
                  searchTimeout := Some timeout\<rparr>))"

text \<open>A timer runs: it leaves the pending timers and its lookup is carried out.\<close>

definition fire ::
  "'g LocationApi \<Rightarrow> Timer \<Rightarrow> ('g, 'u) SearchBox_scheme \<Rightarrow> ('g, 'u) SearchBox_scheme" where
  "fire api t b =
     (let b1 = clearTimeout (handle t) b
      in case lookup api (timer_query t) (service b1) b1 of
           (b2, calls, g') \<Rightarrow> b2\<lparr>service := g', lookups := lookups b1 @ [timer_query t]\<rparr>)"

text \<open>
  Time passes up to \<open>now\<close>: the pending timers that are due run, the earliest first. (A
  lookup schedules no timer.)
\<close>

definition advance ::
  "'g LocationApi \<Rightarrow> nat \<Rightarrow> ('g, 'u) SearchBox_scheme \<Rightarrow> ('g, 'u) SearchBox_scheme" where
  "advance api now b = fold (fire api) (sort_key due (filter (\<lambda>t. due t \<le> now) (pending b))) b"

text \<open>
  A call of \<^verbatim>\<open>handleSearch\<close> at a given time, after the timers due by then have run, and
  a sequence of such calls.
\<close>

definition searchAt ::
  "'g LocationApi \<Rightarrow> nat \<times> string \<Rightarrow> ('g, 'u) SearchBox_scheme \<Rightarrow> ('g, 'u) SearchBox_scheme" where
  "searchAt api c b = handleSearch (fst c) (snd c) (advance api (fst c) b)"

definition searchCalls ::
  "'g LocationApi \<Rightarrow> (nat \<times> string) list \<Rightarrow> ('g, 'u) SearchBox_scheme
     \<Rightarrow> ('g, 'u) SearchBox_scheme" where
  "searchCalls api cs b = fold (searchAt api) cs b"

text \<open>
  Calls in quick succession: each comes before the timer of the one before it may run.
\<close>

fun withinWindow :: "(nat \<times> string) list \<Rightarrow> bool" where
  "withinWindow [] = True"
| "withinWindow [c] = True"
| "withinWindow (c # d # cs) = (fst c \<le> fst d \<and> fst d < fst c + 300 \<and> withinWindow (d # cs))"

text \<open>
  What every reachable state satisfies: the only timer that can be pending is the one
  whose handle \<open>searchTimeout\<close> holds, and handles are fresh.
\<close>

definition debounced :: "('g, 'u) SearchBox_scheme \<Rightarrow> bool" where
  "debounced b \<longleftrightarrow>
     length (pending b) \<le> 1 \<and>
     (\<forall>t \<in> set (pending b). searchTimeout b = Some (handle t) \<and> handle t < nextHandle b)"

section \<open>Create-route screen\<close>

subsection \<open>State\<close>

text \<open>
  Modelled from the spec: the types \<^verbatim>\<open>Waypoint\<close> (of \<^verbatim>\<open>components\<close>), \<^verbatim>\<open>MediaItem\<close> and
  \<^verbatim>\<open>Exercise\<close> (of \<^verbatim>\<open>types/route\<close>) are declared in files that are not among the sources.
  A waypoint is a point with a title and a description; a media item is
  \<^verbatim>\<open>{id, type, uri, fileName, description?, thumbnail?}\<close>; an exercise is
  \<^verbatim>\<open>{id, title, description, duration?, repetitions?}\<close>.
\<close>

record Waypoint = GeoPoint +
  title :: string
  description :: string

record MediaItem =
  mi_id :: string
  mi_type :: MediaType
  uri :: string
  fileName :: string
  mi_description :: "string option"
  thumbnail :: "string option"

record Exercise =
  ex_id :: string
  ex_title :: string
  ex_description :: string
  duration :: "string option"
  repetitions :: "string option"

record FormData =
  fd_name :: string
  fd_description :: string
  fd_difficulty :: string
  fd_spot_type :: string
  fd_visibility :: string
  fd_best_season :: string
  fd_best_times :: string
  fd_vehicle_types :: "string list"
  fd_activity_level :: string
  fd_spot_subtype :: string
  fd_transmission_type :: string
  fd_category :: string

text \<open>
  The React state of the screen. \<open>alerts\<close> collects the calls of \<^verbatim>\<open>Alert.alert\<close> (title
  and message) and \<open>wentBack\<close> records \<^verbatim>\<open>navigation.goBack()\<close>.
\<close>

record CreateScreen = SearchUi +
  waypoints :: "Waypoint list"
  region :: Region
  media :: "MediaItem list"
  exercises :: "Exercise list"
  formData :: FormData
  loading :: bool
  error :: "string option"
  alerts :: "(string \<times> string) list"
  wentBack :: bool

subsection \<open>Collecting waypoints\<close>

text \<open>\<^verbatim>\<open>[address.street, address.city, address.country].filter(Boolean).join(', ')\<close>\<close>

definition addressTitle :: "'a Address_scheme \<Rightarrow> string" where
  "addressTitle address = join '', '' (filter_Boolean [street address, city address, country address])"

definition waypointLabel :: "nat \<Rightarrow> string" where
  "waypointLabel n = ''Waypoint '' @ string_of_nat n"




text \<open>
  \<^verbatim>\<open>handleLocationSelect\<close>: the selected search result already carries its address; no
  call to the geocoding service is made here.
\<close>

definition handleLocationSelect :: "SearchResult \<Rightarrow> CreateScreen \<Rightarrow> CreateScreen" where
  "handleLocationSelect result s =
     (case coords result of
        None \<Rightarrow> s
      | Some c \<Rightarrow>
          (let title = addressTitle result;
               newWaypoint = \<lparr>latitude = latitude c, longitude = longitude c,
                              title = title, description = ''Searched location''\<rparr>
           in s\<lparr>region := \<lparr>latitude = latitude c, longitude = longitude c,
                            latitudeDelta = 0.01, longitudeDelta = 0.01\<rparr>,
                waypoints := waypoints s @ [newWaypoint],
                searchQuery := title,
                showSearchResults := False\<rparr>))"

subsection \<open>The backend\<close>

text \<open>
  The backend client is outside the repository. It is modelled by what the screen relies
  on and the specification says of it (record reads and writes over a table of rows keyed
  by identifier): a table of rows by identifier and a bucket of files; a row is read,
  replaced column by column, or inserted. A request that matches no row is the only
  failure modelled. \<open>Request\<close> lists the calls the screen issues.
\<close>

record Backend =
  routes :: "string \<rightharpoonup> Route"
  files :: "string list"

datatype Request =
    SelectRoute string
  | SelectMediaAttachments string
  | UpdateRoute string Route
  | InsertRoute Route
  | UploadFile string
  | UpdateMediaAttachments string "MediaUrl list"

text \<open>The payloads of the record writes among the requests.\<close>

fun payloads :: "Request list \<Rightarrow> Route list" where
  "payloads [] = []"
| "payloads (UpdateRoute i p # rs) = p # payloads rs"
| "payloads (InsertRoute p # rs) = p # payloads rs"
| "payloads (r # rs) = payloads rs"

text \<open>\<^verbatim>\<open>(row?.media_attachments || [])\<close> of the row with identifier \<open>i\<close>.\<close>

definition storedAttachments :: "Backend \<Rightarrow> string \<Rightarrow> MediaUrl list" where
  "storedAttachments db i =
     (case routes db i of
        None \<Rightarrow> []
      | Some row \<Rightarrow> (case media_attachments row of None \<Rightarrow> [] | Some ms \<Rightarrow> ms))"

text \<open>
  \<^verbatim>\<open>.update(payload).eq('id', i).select().single()\<close>: the columns of the payload replace
  those of the row (the payload of the screen has every column but \<open>created_at\<close>).
\<close>

definition updateRoute :: "string \<Rightarrow> Route \<Rightarrow> Backend \<Rightarrow> (js_error + Route) \<times> Backend" where
  "updateRoute i payload db =
     (case routes db i of
        None \<Rightarrow> (Inl (Thrown ''no rows''), db)
      | Some old \<Rightarrow>
          (let row = payload\<lparr>created_at := created_at old\<rparr>
           in (Inr row, db\<lparr>routes := (routes db)(i \<mapsto> row)\<rparr>)))"

text \<open>\<^verbatim>\<open>.insert(payload).select().single()\<close>; the backend chooses the identifier \<open>i\<close>.\<close>

definition insertRoute :: "string \<Rightarrow> Route \<Rightarrow> Backend \<Rightarrow> Backend" where
  "insertRoute i payload db = db\<lparr>routes := (routes db)(i \<mapsto> payload)\<rparr>"

text \<open>\<^verbatim>\<open>.update({ media_attachments: ms }).eq('id', i)\<close>\<close>

definition updateMediaAttachments :: "string \<Rightarrow> MediaUrl list \<Rightarrow> Backend \<Rightarrow> Backend" where
  "updateMediaAttachments i ms db =
     (case routes db i of
        None \<Rightarrow> db
      | Some row \<Rightarrow> db\<lparr>routes := (routes db)(i \<mapsto> row\<lparr>media_attachments := Some ms\<rparr>)\<rparr>)"

subsection \<open>Submitting the form\<close>

record User =
  user_id :: string

text \<open>
  What a submission takes from outside the screen state: the signed-in user, the route
  parameter \<open>routeId\<close>, the two readings of the clock, the identifier the backend gives a
  new row, the outcome of a file upload, the public URL of an uploaded file, and
  \<^verbatim>\<open>JSON.stringify\<close> on the exercises.
\<close>

record Env =
  user :: "User option"
  routeId :: "string option"
  toISOString :: string
  Date_now :: nat
  newRouteId :: string
  uploadError :: "string \<Rightarrow> js_error option"
  getPublicUrl :: "string \<Rightarrow> string"
  JSON_stringify :: "Exercise list \<Rightarrow> string"

text \<open>
  \<^verbatim>\<open>isEditing && routeId\<close>, with \<^verbatim>\<open>isEditing = !!routeId\<close>: the identifier of the route being
  edited, if there is one and it is not the empty string.
\<close>

definition editing :: "Env \<Rightarrow> string option" where
  "editing env = (case routeId env of None \<Rightarrow> None | Some i \<Rightarrow> if i = [] then None else Some i)"

text \<open>
  \<^verbatim>\<open>waypoints.map((wp, index) => ({ lat: wp.latitude, lng: wp.longitude,
  title: wp.title || `Waypoint ${index + 1}`, description: wp.description }))\<close>
\<close>

definition waypointDetails :: "Waypoint list \<Rightarrow> WaypointData list" where
  "waypointDetails wps =
     map (\<lambda>(index, wp). \<lparr>lat = latitude wp, lng = longitude wp,
                          wd_title = or_else (title wp) (waypointLabel (index + 1)),
                          wd_description = description wp\<rparr>)
       (indexed wps)"

definition toMediaUrl :: "MediaItem \<Rightarrow> MediaUrl" where
  "toMediaUrl item = \<lparr>mu_type = mi_type item, url = uri item, mu_description = mi_description item\<rparr>"

text \<open>The attachment list of an edit: the stored ones still shown, then the new local ones.\<close>

definition mediaToUpdate :: "MediaUrl list \<Rightarrow> MediaItem list \<Rightarrow> MediaUrl list" where
  "mediaToUpdate existingMedia ms =
     (let existingMediaUrls = map url existingMedia;
          currentMediaUrls = map uri ms
      in filter (\<lambda>m. url m \<in> set currentMediaUrls) existingMedia @
         map toMediaUrl
           (filter (\<lambda>m. uri m \<notin> set existingMediaUrls \<and> \<not> startsWith (uri m) ''http'') ms))"

definition baseRouteData :: "Env \<Rightarrow> User \<Rightarrow> CreateScreen \<Rightarrow> MediaUrl list \<Rightarrow> Route" where
  "baseRouteData env u s attachments =
     \<lparr>name = Some (fd_name (formData s)),
      route_description = Some (or_else (fd_description (formData s)) []),
      difficulty = Some (fd_difficulty (formData s)),
      spot_type = Some (fd_spot_type (formData s)),
      visibility = Some (fd_visibility (formData s)),
      best_season = Some (fd_best_season (formData s)),
      best_times = Some (fd_best_times (formData s)),
      vehicle_types = Some (fd_vehicle_types (formData s)),
      activity_level = Some (fd_activity_level (formData s)),
      spot_subtype = Some (fd_spot_subtype (formData s)),
      transmission_type = Some (fd_transmission_type (formData s)),
      category = Some (fd_category (formData s)),
      creator_id = Some (user_id u),
      updated_at = Some (toISOString env),
      created_at = None,
      is_public = Some (fd_visibility (formData s) = ''public''),
      waypoint_details = Some (waypointDetails (waypoints s)),
      metadata = Some \<lparr>md_waypoints = Some (waypointDetails (waypoints s)),
                       pins = Some [],
                       options = Some \<lparr>reverse = False, closeLoop = False, doubleBack = False\<rparr>,
                       coordinates = Some []\<rparr>,
      suggested_exercises =
        Some (if length (exercises s) > 0 then JSON_stringify env (exercises s) else []),
      media_attachments = Some attachments,
      drawing_mode = Some ''waypoints''\<rparr>"

text \<open>
  One round of the loop of \<^verbatim>\<open>uploadMediaInBackground\<close>: the item is uploaded, then the
  row's attachments are read and written back with the new one appended. A failed upload
  throws.
\<close>

definition uploadItem ::
  "Env \<Rightarrow> string \<Rightarrow> MediaItem \<Rightarrow> Backend \<Rightarrow> js_error option \<times> Backend \<times> Request list" where
  "uploadItem env i item db =
     (let fileExtension = or_else (split_pop (CHR ''.'') (fileName item)) ''jpg'';
          filePath = ''routes/'' @ i @ ''/'' @ string_of_nat (Date_now env) @ ''.'' @ fileExtension
      in case uploadError env filePath of
           Some err \<Rightarrow> (Some err, db, [UploadFile filePath])
         | None \<Rightarrow>
             (let db1 = db\<lparr>files := files db @ [filePath]\<rparr>;
                  publicUrl = getPublicUrl env filePath;
                  currentAttachments = storedAttachments db1 i;
                  updatedAttachments = currentAttachments @
                    [\<lparr>mu_type = mi_type item, url = publicUrl, mu_description = mi_description item\<rparr>]
              in (None, updateMediaAttachments i updatedAttachments db1,
                  [UploadFile filePath, SelectMediaAttachments i,
                   UpdateMediaAttachments i updatedAttachments])))"

text \<open>The loop: it ends with the first error.\<close>

fun uploadItems ::
  "Env \<Rightarrow> string \<Rightarrow> MediaItem list \<Rightarrow> Backend \<Rightarrow> js_error option \<times> Backend \<times> Request list" where
  "uploadItems env i [] db = (None, db, [])"
| "uploadItems env i (item # items) db =
     (case uploadItem env i item db of
        (Some err, db1, reqs) \<Rightarrow> (Some err, db1, reqs)
      | (None, db1, reqs) \<Rightarrow>
          (case uploadItems env i items db1 of
             (err, db2, reqs') \<Rightarrow> (err, db2, reqs @ reqs')))"

definition uploadMediaInBackground ::
  "Env \<Rightarrow> MediaItem list \<Rightarrow> string \<Rightarrow> Backend \<Rightarrow> js_error option \<times> Backend \<times> Request list" where
  "uploadMediaInBackground env ms i db =
     (let newMediaItems = filter (\<lambda>m. \<not> startsWith (uri m) ''http'') ms
      in uploadItems env i newMediaItems db)"

text \<open>
  After the record is written: the new media are uploaded (a failure is logged only), the
  loading flag is cleared and the screen goes back.
\<close>

definition afterWrite ::
  "Env \<Rightarrow> string \<Rightarrow> CreateScreen \<Rightarrow> Backend \<Rightarrow> Request list
     \<Rightarrow> CreateScreen \<times> Backend \<times> Request list" where
  "afterWrite env i s db reqs =
     (let (db1, reqs1) =
            (if length (media s) > 0 \<and> i \<noteq> [] then
               (let newMedia = filter (\<lambda>m. \<not> startsWith (uri m) ''http'') (media s)
                in if length newMedia > 0 then
                     (case uploadMediaInBackground env newMedia i db of
                        (err, db', rs) \<Rightarrow> (db', rs))
                   else (db, []))
             else (db, []))
      in (s\<lparr>loading := False, wentBack := True\<rparr>, db1, reqs @ reqs1))"

text \<open>
  The message of the \<^verbatim>\<open>catch\<close> of \<^verbatim>\<open>handleCreate\<close>:
  \<^verbatim>\<open>err instanceof Error ? err.message : 'Failed to save route. Please try again.'\<close>
\<close>

definition saveFailed :: "js_error \<Rightarrow> string" where
  "saveFailed err =
     (case err of Error message \<Rightarrow> message | Thrown v \<Rightarrow> ''Failed to save route. Please try again.'')"

text \<open>
  \<^verbatim>\<open>handleCreate\<close>. The result is the screen state, the backend and the requests issued.
  (The analytics calls and the refresh mark on the previous screen are left out.)
\<close>

definition handleCreate ::
  "Env \<Rightarrow> Backend \<Rightarrow> CreateScreen \<Rightarrow> CreateScreen \<times> Backend \<times> Request list" where
  "handleCreate env db s =
     (case (case user env of None \<Rightarrow> None | Some u \<Rightarrow> if user_id u = [] then None else Some u) of
        None \<Rightarrow>
          (s\<lparr>alerts := alerts s @ [(''Error'', ''Please sign in to create a route'')]\<rparr>, db, [])
      | Some u \<Rightarrow>
          if trim (fd_name (formData s)) = [] then
            (s\<lparr>alerts := alerts s @ [(''Error'', ''Please enter a route name'')]\<rparr>, db, [])
          else
            (let s1 = s\<lparr>loading := True, error := None\<rparr>
             in case editing env of
                  Some i \<Rightarrow>
                    (let existingMedia = storedAttachments db i;
                         payload = baseRouteData env u s (mediaToUpdate existingMedia (media s));
                         reqs = [SelectMediaAttachments i, UpdateRoute i payload]
                     in case updateRoute i payload db of
                          (Inl err, db1) \<Rightarrow>
                            (s1\<lparr>error := Some (saveFailed err), loading := False\<rparr>, db1, reqs)
                        | (Inr route, db1) \<Rightarrow> afterWrite env i s1 db1 reqs)
                | None \<Rightarrow>
                    (let payload = (baseRouteData env u s (map toMediaUrl (media s)))
                                     \<lparr>created_at := Some (toISOString env)\<rparr>;
                         db1 = insertRoute (newRouteId env) payload db
                     in afterWrite env (newRouteId env) s1 db1 [InsertRoute payload])))"

subsection \<open>Loading a route for editing\<close>

text \<open>\<^verbatim>\<open>v || d\<close> on a string column that may be missing.\<close>

definition column_or :: "string option \<Rightarrow> string \<Rightarrow> string" where
  "column_or v d = (case v of None \<Rightarrow> d | Some x \<Rightarrow> or_else x d)"

text \<open>
  What \<^verbatim>\<open>loadRouteData\<close> takes from outside: the fresh identifier of the \<open>n\<close>-th media
  item and the video identifier in a YouTube URL (\<^verbatim>\<open>extractYoutubeVideoId\<close>, two regular
  expressions).
\<close>

record LoadEnv =
  freshMediaId :: "nat \<Rightarrow> string"
  extractYoutubeVideoId :: "string \<Rightarrow> string option"

definition toWaypoint :: "WaypointData \<Rightarrow> Waypoint" where
  "toWaypoint wp =
     \<lparr>latitude = lat wp, longitude = lng wp, title = wd_title wp, description = wd_description wp\<rparr>"

definition toMediaItem :: "LoadEnv \<Rightarrow> nat \<times> MediaUrl \<Rightarrow> MediaItem" where
  "toMediaItem lenv im =
     (case im of (n, m) \<Rightarrow>
        \<lparr>mi_id = freshMediaId lenv n,
         mi_type = mu_type m,
         uri = url m,
         fileName = or_else (split_pop (CHR ''/'') (url m)) ''unknown'',
         mi_description = mu_description m,
         thumbnail =
           (if mu_type m = Youtube then
              Some (''https://img.youtube.com/vi/'' @
                    (case extractYoutubeVideoId lenv (url m) of None \<Rightarrow> ''null'' | Some v \<Rightarrow> v) @
                    ''/hqdefault.jpg'')
            else None)\<rparr>)"

text \<open>
  \<^verbatim>\<open>loadRouteData\<close>: the row is read; without it the error is shown. (The column
  \<^verbatim>\<open>exercises\<close>, which no submission writes, is left out.)
\<close>

definition loadRouteData :: "LoadEnv \<Rightarrow> Backend \<Rightarrow> string \<Rightarrow> CreateScreen \<Rightarrow> CreateScreen" where
  "loadRouteData lenv db i s =
     (case routes db i of
        None \<Rightarrow> s\<lparr>error := Some ''Failed to load route data''\<rparr>
      | Some route \<Rightarrow>
          (let s1 = s\<lparr>formData :=
                 \<lparr>fd_name = column_or (name route) [],
                  fd_description = column_or (route_description route) [],
                  fd_difficulty = column_or (difficulty route) ''beginner'',
                  fd_spot_type = column_or (spot_type route) ''urban'',
                  fd_visibility = column_or (visibility route) ''public'',
                  fd_best_season = column_or (best_season route) ''all'',
                  fd_best_times = column_or (best_times route) ''anytime'',
                  fd_vehicle_types =
                    (case vehicle_types route of None \<Rightarrow> [''passenger_car''] | Some v \<Rightarrow> v),
                  fd_activity_level = column_or (activity_level route) ''moderate'',
                  fd_spot_subtype = column_or (spot_subtype route) ''standard'',
                  fd_transmission_type = column_or (transmission_type route) ''both'',
                  fd_category = column_or (category route) ''parking''\<rparr>\<rparr>;
               s2 = (case waypoint_details route of
                       None \<Rightarrow> s1
                     | Some details \<Rightarrow>
                         (let wps = map toWaypoint details;
                              s' = s1\<lparr>waypoints := wps\<rparr>
                          in case wps of
                               [] \<Rightarrow> s'
                             | firstWaypoint # _ \<Rightarrow>
                                 s'\<lparr>region := \<lparr>latitude = latitude firstWaypoint,
                                                longitude = longitude firstWaypoint,
                                                latitudeDelta = 0.02, longitudeDelta = 0.02\<rparr>,
                                    searchQuery := or_else (title firstWaypoint) []\<rparr>))
           in case media_attachments route of
                None \<Rightarrow> s2
              | Some ms \<Rightarrow> s2\<lparr>media := map (toMediaItem lenv) (indexed ms)\<rparr>))"

section \<open>Properties: what they are stated with\<close>

subsection \<open>Location search\<close>



text \<open>The answers of the service to a sequence of geocode calls, one after the other.\<close>

fun replay :: "'g LocationApi \<Rightarrow> string list \<Rightarrow> 'g \<Rightarrow> GeocodeCall list" where
  "replay api [] g = []"
| "replay api (t # ts) g = (case geocodeAsync api t g of (a, g') \<Rightarrow> (t, a) # replay api ts g')"

text \<open>A geocode call that returned, with zero results.\<close>

definition noHits :: "GeocodeCall \<Rightarrow> bool" where
  "noHits c \<longleftrightarrow> snd c = Inr []"

text \<open>The pending lookups: when each may run and for which query.\<close>

definition schedule :: "('g, 'u) SearchBox_scheme \<Rightarrow> (nat \<times> string) list" where
  "schedule b = map (\<lambda>t. (due t, timer_query t)) (pending b)"

subsection \<open>Create-route screen\<close>

text \<open>
  A waypoint list in which each empty title is replaced by the label of its position.
\<close>

definition relabelled :: "Waypoint list \<Rightarrow> Waypoint list" where
  "relabelled wps =
     map (\<lambda>(n, wp). wp\<lparr>title := or_else (title wp) (waypointLabel (n + 1))\<rparr>) (indexed wps)"

text \<open>The column \<open>waypoint_details\<close> of the row with identifier \<open>i\<close>, if there is such a row.\<close>

definition waypointColumn :: "Backend \<Rightarrow> string \<Rightarrow> WaypointData list option option" where
  "waypointColumn db i = map_option waypoint_details (routes db i)"

text \<open>The identifier of the row that a submission writes.\<close>

definition writtenId :: "Env \<Rightarrow> string" where
  "writtenId env = (case editing env of Some i \<Rightarrow> i | None \<Rightarrow> newRouteId env)"

section \<open>Concrete inputs\<close>

text \<open>The state of the create-route screen when it mounts.\<close>

definition initialScreen :: CreateScreen where
  "initialScreen =
     \<lparr>searchQuery = [], searchResults = [], showSearchResults = False, searchTimeout = None,
      waypoints = [],
      region = \<lparr>latitude = 55.7047, longitude = 13.191, latitudeDelta = 0.1, longitudeDelta = 0.1\<rparr>,
      media = [], exercises = [],
      formData = \<lparr>fd_name = [], fd_description = [], fd_difficulty = ''beginner'',
                  fd_spot_type = ''urban'', fd_visibility = ''public'', fd_best_season = ''all'',
                  fd_best_times = ''anytime'', fd_vehicle_types = [''passenger_car''],
                  fd_activity_level = ''moderate'', fd_spot_subtype = ''standard'',
                  fd_transmission_type = ''both'', fd_category = ''parking''\<rparr>,
      loading = False, error = None, alerts = [], wentBack = False\<rparr>"

text \<open>The same screen once a route name has been typed.\<close>

definition namedScreen :: CreateScreen where
  "namedScreen = initialScreen\<lparr>formData := (formData initialScreen)\<lparr>fd_name := ''Loop''\<rparr>\<rparr>"

text \<open>The search box of either screen when it mounts, with a service that has no state.\<close>

definition initialBox :: "unit SearchBox" where
  "initialBox =
     \<lparr>searchQuery = [], searchResults = [], showSearchResults = False, searchTimeout = None,
      pending = [], nextHandle = 1, service = (), lookups = []\<rparr>"

text \<open>A signed-in user creating a route, and the same user editing the route \<open>r1\<close>.\<close>

definition createEnv :: Env where
  "createEnv =
     \<lparr>user = Some \<lparr>user_id = ''u1''\<rparr>, routeId = None,
      toISOString = ''2024-05-01T10:00:00.000Z'', Date_now = 1714557600000,
      newRouteId = ''r1'', uploadError = (\<lambda>path. None),
      getPublicUrl = (\<lambda>path. ''https://cdn.example/'' @ path),
      JSON_stringify = (\<lambda>es. ''[]'')\<rparr>"

definition editEnv :: Env where
  "editEnv = createEnv\<lparr>routeId := Some ''r1''\<rparr>"

definition loadEnv :: LoadEnv where
  "loadEnv = \<lparr>freshMediaId = (\<lambda>n. ''m'' @ string_of_nat n), extractYoutubeVideoId = (\<lambda>u. None)\<rparr>"

definition emptyBackend :: Backend where
  "emptyBackend = \<lparr>routes = Map.empty, files = []\<rparr>"

text \<open>A row with no column set.\<close>

definition blankRoute :: Route where
  "blankRoute =
     \<lparr>name = None, route_description = None, difficulty = None, spot_type = None,
      visibility = None, best_season = None, best_times = None, vehicle_types = None,
      activity_level = None, spot_subtype = None, transmission_type = None, category = None,
      creator_id = None, updated_at = None, created_at = None, is_public = None,
      waypoint_details = None, metadata = None, suggested_exercises = None,
      media_attachments = None, drawing_mode = None\<rparr>"

text \<open>
  The route \<open>r1\<close> stored with the attachments \<open>http://a\<close> and \<open>http://b\<close>; the screen
  that edits it still shows \<open>http://a\<close> and has the new local file \<open>file://new\<close>.
\<close>

definition storedAB :: Backend where
  "storedAB =
     \<lparr>routes = [''r1'' \<mapsto> blankRoute\<lparr>media_attachments :=
         Some [\<lparr>mu_type = Image, url = ''http://a'', mu_description = None\<rparr>,
               \<lparr>mu_type = Image, url = ''http://b'', mu_description = None\<rparr>]\<rparr>],
      files = []\<rparr>"

definition editingScreen :: CreateScreen where
  "editingScreen = namedScreen\<lparr>media :=
     [\<lparr>mi_id = ''1'', mi_type = Image, uri = ''http://a'', fileName = ''a'',
       mi_description = None, thumbnail = None\<rparr>,
      \<lparr>mi_id = ''2'', mi_type = Image, uri = ''file://new'', fileName = ''new'',
       mi_description = None, thumbnail = None\<rparr>]\<rparr>"

text \<open>A screen whose route name is blank, and a session without a user.\<close>

definition blankNameScreen :: CreateScreen where
  "blankNameScreen = initialScreen\<lparr>formData := (formData initialScreen)\<lparr>fd_name := ''  ''\<rparr>\<rparr>"

definition signedOutEnv :: Env where
  "signedOutEnv = createEnv\<lparr>user := None\<rparr>"

text \<open>The two waypoints \<open>A\<close> and \<open>B\<close>.\<close>

definition screenAB :: CreateScreen where
  "screenAB = namedScreen\<lparr>waypoints :=
     [\<lparr>latitude = 37.0, longitude = - 122.0, title = ''A'', description = ''Tapped location''\<rparr>,
      \<lparr>latitude = 37.1, longitude = - 122.1, title = ''B'', description = ''Tapped location''\<rparr>]\<rparr>"

text \<open>
  A search result without street, city and country (the reverse geocoding of the hit found
  no address), and the screen after the user has selected it.
\<close>

definition bareResult :: SearchResult where
  "bareResult =
     \<lparr>street = None, city = None, country = None,
      coords = Some \<lparr>latitude = 37.0, longitude = - 122.0\<rparr>\<rparr>"

definition untitledScreen :: CreateScreen where
  "untitledScreen = handleLocationSelect bareResult namedScreen"

text \<open>
  Geocoding services without state. The device is at \<open>(55.7, 13.2)\<close>. \<open>noAddressApi\<close>
  finds no address for any point, \<open>throwingApi\<close> throws on reverse geocoding,
  \<open>lundApi\<close> finds the same address for every point.
\<close>

definition noAddressApi :: "unit LocationApi" where
  "noAddressApi =
     \<lparr>geocodeAsync = (\<lambda>q g. (Inr [], g)),
      reverseGeocodeAsync = (\<lambda>p g. (Inr [], g)),
      getCurrentPositionAsync = (\<lambda>g. (Inr \<lparr>latitude = 55.7, longitude = 13.2\<rparr>, g))\<rparr>"




text \<open>
  A service that counts its geocode calls and has one hit from the third call on.
\<close>

definition thirdCallApi :: "nat LocationApi" where
  "thirdCallApi =
     \<lparr>geocodeAsync = (\<lambda>q n. (if n < 2 then Inr [] else Inr [\<lparr>latitude = 57.7, longitude = 11.9\<rparr>], n + 1)),
      reverseGeocodeAsync = (\<lambda>p n. (Inr [], n)),
      getCurrentPositionAsync = (\<lambda>n. (Inr \<lparr>latitude = 55.7, longitude = 13.2\<rparr>, n))\<rparr>"

text \<open>A search box that shows one result of an earlier query.\<close>

definition shownBox :: "unit SearchBox" where
  "shownBox = initialBox\<lparr>searchQuery := ''lund'', searchResults := [bareResult],
                         showSearchResults := True\<rparr>"


text \<open>Two loaded routes; the second keeps its waypoints in the metadata only.\<close>

definition twoRoutes :: "Route list" where
  "twoRoutes =
     [blankRoute\<lparr>waypoint_details :=
        Some [\<lparr>lat = 55.7, lng = 13.2, wd_title = ''A'', wd_description = []\<rparr>,
              \<lparr>lat = 55.9, lng = 13.0, wd_title = ''B'', wd_description = []\<rparr>]\<rparr>,
      blankRoute\<lparr>metadata :=
        Some \<lparr>md_waypoints = Some [\<lparr>lat = 57.7, lng = 11.9, wd_title = ''C'', wd_description = []\<rparr>],
              pins = None, options = None, coordinates = None\<rparr>\<rparr>]"

section \<open>The draggable panel settles where the specification says\<close>








section \<open>The viewport covers the loaded routes\<close>

lemma Math_min_le: "Math_min x xs \<le> x \<and> (\<forall>y \<in> set xs. Math_min x xs \<le> y)"
  using Min.set_eq_fold [of x xs, symmetric] by (simp add: Math_min_def)

lemma Math_max_ge: "x \<le> Math_max x xs \<and> (\<forall>y \<in> set xs. y \<le> Math_max x xs)"
  using Max.set_eq_fold [of x xs, symmetric] by (simp add: Math_max_def)

lemma Math_min_Min: "Math_min x xs = Min (set (x # xs))"
  by (simp add: Math_min_def Min.set_eq_fold del: set_simps)

lemma Math_max_Max: "Math_max x xs = Max (set (x # xs))"
  by (simp add: Math_max_def Max.set_eq_fold del: set_simps)

lemma span_covers:
  fixes lo hi y :: real
  assumes "lo \<le> y" and "y \<le> hi"
  shows "(lo + hi) / 2 - max ((hi - lo) + (hi - lo) * 0.1) 0.01 / 2 \<le> y"
    and "y \<le> (lo + hi) / 2 + max ((hi - lo) + (hi - lo) * 0.1) 0.01 / 2"
  using assms by (auto simp: max_def field_simps)

text \<open>
  Claim C10. When at least one route is loaded and the loaded routes have at least one
  waypoint between them, a region is computed and becomes the region of the map. Its
  centre is the midpoint of the least and the greatest latitude and of the least and the
  greatest longitude of the waypoints; each span is the extent of the bounding box plus a
  tenth of it, and at least 0.01. Hence every waypoint of every loaded route lies in the
  viewport.
\<close>

theorem map_region_covers_waypoints:
  assumes "rs \<noteq> []" and "concat (map route_waypoints rs) \<noteq> []"
  shows "\<exists>r. getMapRegion rs = Some r \<and> updateRegion rs region0 = r \<and>
    (let lats = lat ` set (concat (map route_waypoints rs));
         lngs = lng ` set (concat (map route_waypoints rs))
     in latitude r = (Min lats + Max lats) / 2 \<and>
        longitude r = (Min lngs + Max lngs) / 2 \<and>
        latitudeDelta r = max ((Max lats - Min lats) + (Max lats - Min lats) * 0.1) 0.01 \<and>
        longitudeDelta r = max ((Max lngs - Min lngs) + (Max lngs - Min lngs) * 0.1) 0.01) \<and>
    0.01 \<le> latitudeDelta r \<and> 0.01 \<le> longitudeDelta r \<and>
    (\<forall>route \<in> set rs. \<forall>w \<in> set (route_waypoints route). in_viewport r w)"
proof -
  obtain w ws where ws: "concat (map route_waypoints rs) = w # ws"
    using assms(2) by (cases "concat (map route_waypoints rs)") auto
  define r where "r = \<lparr>latitude = (Math_min (lat w) (map lat ws) + Math_max (lat w) (map lat ws)) / 2,
      longitude = (Math_min (lng w) (map lng ws) + Math_max (lng w) (map lng ws)) / 2,
      latitudeDelta = max ((Math_max (lat w) (map lat ws) - Math_min (lat w) (map lat ws))
          + (Math_max (lat w) (map lat ws) - Math_min (lat w) (map lat ws)) * 0.1) 0.01,
      longitudeDelta = max ((Math_max (lng w) (map lng ws) - Math_min (lng w) (map lng ws))
          + (Math_max (lng w) (map lng ws) - Math_min (lng w) (map lng ws)) * 0.1) 0.01\<rparr>"
  have get: "getMapRegion rs = Some r"
    using assms(1) ws by (simp add: getMapRegion_def r_def Let_def)
  have upd: "updateRegion rs region0 = r"
    by (simp add: updateRegion_def get)
  have lats: "lat ` set (w # ws) = set (lat w # map lat ws)"
    and lngs: "lng ` set (w # ws) = set (lng w # map lng ws)" by auto
  have centre: "let lats = lat ` set (concat (map route_waypoints rs));
         lngs = lng ` set (concat (map route_waypoints rs))
     in latitude r = (Min lats + Max lats) / 2 \<and>
        longitude r = (Min lngs + Max lngs) / 2 \<and>
        latitudeDelta r = max ((Max lats - Min lats) + (Max lats - Min lats) * 0.1) 0.01 \<and>
        longitudeDelta r = max ((Max lngs - Min lngs) + (Max lngs - Min lngs) * 0.1) 0.01"
    unfolding Let_def ws lats lngs Math_min_Min [symmetric] Math_max_Max [symmetric]
    by (simp add: r_def)
  have least: "0.01 \<le> latitudeDelta r" "0.01 \<le> longitudeDelta r"
    by (simp_all add: r_def)
  have cover: "in_viewport r v" if "route \<in> set rs" "v \<in> set (route_waypoints route)" for route v
  proof -
    have "v \<in> set (w # ws)" using that ws [symmetric] by auto
    then have b: "Math_min (lat w) (map lat ws) \<le> lat v" "lat v \<le> Math_max (lat w) (map lat ws)"
      "Math_min (lng w) (map lng ws) \<le> lng v" "lng v \<le> Math_max (lng w) (map lng ws)"
      using Math_min_le [of "lat w" "map lat ws"] Math_max_ge [of "lat w" "map lat ws"]
        Math_min_le [of "lng w" "map lng ws"] Math_max_ge [of "lng w" "map lng ws"]
      by auto
    show ?thesis
      unfolding in_viewport_def r_def
      using span_covers [OF b(1,2)] span_covers [OF b(3,4)] by simp
  qed
  show ?thesis using get upd centre least cover by blast
qed

text \<open>
  Two routes with the waypoints (55.7, 13.2), (55.9, 13.0) and (57.7, 11.9): the region is
  centred at (56.7, 12.55) with the spans 2.2 and 1.43, and holds the three waypoints.
\<close>

theorem map_region_covers_waypoints_witness:
  "twoRoutes \<noteq> [] \<and> concat (map route_waypoints twoRoutes) \<noteq> [] \<and>
   getMapRegion twoRoutes =
     Some \<lparr>latitude = 56.7, longitude = 12.55, latitudeDelta = 2.2, longitudeDelta = 1.43\<rparr> \<and>
   in_viewport \<lparr>latitude = 56.7, longitude = 12.55, latitudeDelta = 2.2, longitudeDelta = 1.43\<rparr>
     \<lparr>lat = 55.7, lng = 13.2, wd_title = ''A'', wd_description = []\<rparr> \<and>
   in_viewport \<lparr>latitude = 56.7, longitude = 12.55, latitudeDelta = 2.2, longitudeDelta = 1.43\<rparr>
     \<lparr>lat = 55.9, lng = 13.0, wd_title = ''B'', wd_description = []\<rparr> \<and>
   in_viewport \<lparr>latitude = 56.7, longitude = 12.55, latitudeDelta = 2.2, longitudeDelta = 1.43\<rparr>
     \<lparr>lat = 57.7, lng = 11.9, wd_title = ''C'', wd_description = []\<rparr>"
proof -
  have h1: "twoRoutes \<noteq> []" by (simp add: twoRoutes_def)
  have wps: "map route_waypoints twoRoutes =
     [[\<lparr>lat = 55.7, lng = 13.2, wd_title = ''A'', wd_description = []\<rparr>,
       \<lparr>lat = 55.9, lng = 13.0, wd_title = ''B'', wd_description = []\<rparr>],
      [\<lparr>lat = 57.7, lng = 11.9, wd_title = ''C'', wd_description = []\<rparr>]]"
    by (simp add: twoRoutes_def route_waypoints_def blankRoute_def)
  have h2: "concat (map route_waypoints twoRoutes) \<noteq> []"
    unfolding wps by simp
  have g: "getMapRegion twoRoutes =
     Some \<lparr>latitude = 56.7, longitude = 12.55, latitudeDelta = 2.2, longitudeDelta = 1.43\<rparr>"
    unfolding getMapRegion_def wps
    by (simp add: twoRoutes_def Math_min_def Math_max_def Let_def)
  from map_region_covers_waypoints [OF h1 h2] obtain r
    where r: "getMapRegion twoRoutes = Some r"
      and c: "\<forall>route \<in> set twoRoutes. \<forall>w \<in> set (route_waypoints route). in_viewport r w"
    by blast
  from r g have e: "r = \<lparr>latitude = 56.7, longitude = 12.55, latitudeDelta = 2.2, longitudeDelta = 1.43\<rparr>"
    by simp
  have "\<forall>w \<in> set (concat (map route_waypoints twoRoutes)). in_viewport r w"
    using c by auto
  then have "in_viewport r \<lparr>lat = 55.7, lng = 13.2, wd_title = ''A'', wd_description = []\<rparr>"
    and "in_viewport r \<lparr>lat = 55.9, lng = 13.0, wd_title = ''B'', wd_description = []\<rparr>"
    and "in_viewport r \<lparr>lat = 57.7, lng = 11.9, wd_title = ''C'', wd_description = []\<rparr>"
    unfolding wps by simp_all
  then show ?thesis using h1 h2 g unfolding e by blast
qed

section \<open>Search results are deduplicated by their coordinates\<close>

lemma findIndexFrom_none: "\<forall>x \<in> set xs. \<not> P x \<Longrightarrow> findIndexFrom i P xs = - 1"
  by (induction xs arbitrary: i) auto









lemma coords_toSearchResult:
  "coords (toSearchResult r a) = Some \<lparr>latitude = latitude r, longitude = longitude r\<rparr>"
  by (simp add: toSearchResult_def Let_def split: list.splits)




section \<open>The lookup and its fallbacks\<close>

lemma tryTerms_calls:
  "tryTerms api ts rs g = (res, calls, g') \<Longrightarrow>
     prefix (map fst calls) ts \<and>
     calls = replay api (map fst calls) g \<and>
     (\<forall>c \<in> set (butlast calls). noHits c) \<and>
     (calls = [] \<longrightarrow> ts = [] \<and> res = Inr rs) \<and>
     (calls \<noteq> [] \<longrightarrow> res = snd (last calls)) \<and>
     (calls \<noteq> [] \<and> noHits (last calls) \<longrightarrow> map fst calls = ts)"
proof (induction ts arbitrary: rs g res calls g')
  case Nil
  then show ?case by simp
next
  case (Cons t ts)
  obtain a g1 where a: "geocodeAsync api t g = (a, g1)" by (cases "geocodeAsync api t g")
  show ?case
  proof (cases a)
    case (Inl e)
    with a Cons.prems show ?thesis by (auto simp: noHits_def)
  next
    case (Inr hits)
    show ?thesis
    proof (cases "length hits > 0")
      case True
      with a Inr Cons.prems show ?thesis by (auto simp: noHits_def)
    next
      case False
      obtain res1 calls1 g2 where r: "tryTerms api ts hits g1 = (res1, calls1, g2)"
        by (cases "tryTerms api ts hits g1")
      from Cons.IH [OF r] have ih: "prefix (map fst calls1) ts"
        "calls1 = replay api (map fst calls1) g1"
        "\<forall>c \<in> set (butlast calls1). noHits c"
        "calls1 = [] \<longrightarrow> ts = [] \<and> res1 = Inr hits"
        "calls1 \<noteq> [] \<longrightarrow> res1 = snd (last calls1)"
        "calls1 \<noteq> [] \<and> noHits (last calls1) \<longrightarrow> map fst calls1 = ts"
        by blast+
      from a Inr False r Cons.prems have c: "calls = (t, Inr hits) # calls1" "res = res1" "g' = g2"
        by auto
      have h0: "hits = []" using False by simp
      have 1: "prefix (map fst calls) (t # ts)" using c ih(1) by simp
      have 2: "calls = replay api (map fst calls) g" using c ih(2) a Inr by simp
      have 3: "\<forall>c \<in> set (butlast calls). noHits c"
        using c ih(3) h0 by (auto simp: noHits_def)
      have 4: "calls \<noteq> [] \<longrightarrow> res = snd (last calls)"
        using c ih(4,5) h0 by (cases "calls1 = []") auto
      have 5: "calls \<noteq> [] \<and> noHits (last calls) \<longrightarrow> map fst calls = t # ts"
        using c ih(4,6) by (cases "calls1 = []") auto
      have 0: "calls \<noteq> []" using c by simp
      show ?thesis using 0 1 2 3 4 5 by blast
    qed
  qed
qed

lemma geocodeWithFallback_policy:
  assumes "geocodeWithFallback api query g = (res, calls, g')"
  shows "calls \<noteq> [] \<and> fst (hd calls) = query \<and>
     prefix (map fst calls)
       [query, query @ '', Sweden'', query @ '', Gothenburg'', query @ '', Stockholm'',
        query @ '', Malm'' @ [char_of (246 :: nat)], query] \<and>
     calls = replay api (map fst calls) g \<and>
     (1 < length calls \<longleftrightarrow> noHits (hd calls)) \<and>
     (\<forall>c \<in> set (butlast calls). noHits c) \<and>
     (noHits (last calls) \<longrightarrow> length calls = 6) \<and>
     res = snd (last calls)"
proof -
  obtain a g1 where a: "geocodeAsync api query g = (a, g1)" by (cases "geocodeAsync api query g")
  show ?thesis
  proof (cases a)
    case (Inl e)
    with a assms show ?thesis by (auto simp: geocodeWithFallback_def noHits_def)
  next
    case (Inr hits)
    show ?thesis
    proof (cases "length hits = 0")
      case False
      with a Inr assms show ?thesis by (auto simp: geocodeWithFallback_def noHits_def)
    next
      case True
      obtain res1 calls1 g2 where r: "tryTerms api (searchTerms query) hits g1 = (res1, calls1, g2)"
        by (cases "tryTerms api (searchTerms query) hits g1")
      from tryTerms_calls [OF r] have ih: "prefix (map fst calls1) (searchTerms query)"
        "calls1 = replay api (map fst calls1) g1"
        "\<forall>c \<in> set (butlast calls1). noHits c"
        "calls1 = [] \<longrightarrow> searchTerms query = [] \<and> res1 = Inr hits"
        "calls1 \<noteq> [] \<longrightarrow> res1 = snd (last calls1)"
        "calls1 \<noteq> [] \<and> noHits (last calls1) \<longrightarrow> map fst calls1 = searchTerms query"
        by blast+
      from a Inr True r assms have c: "calls = (query, Inr hits) # calls1" "res = res1"
        by (auto simp: geocodeWithFallback_def)
      have ne: "calls1 \<noteq> []" using ih(4) by (auto simp: searchTerms_def)
      have h0: "hits = []" using True by simp
      have 1: "prefix (map fst calls) (query # searchTerms query)" using c ih(1) by simp
      have 2: "calls = replay api (map fst calls) g" using c ih(2) a Inr by simp
      have 3: "\<forall>c \<in> set (butlast calls). noHits c"
        using c ih(3) h0 ne by (auto simp: noHits_def)
      have 4: "res = snd (last calls)" using c ih(5) ne by simp
      have "noHits (last calls) \<longrightarrow> length (map fst calls) = 6"
        using c ih(6) ne by (auto simp: searchTerms_def)
      then have 5: "noHits (last calls) \<longrightarrow> length calls = 6" by simp
      have 6: "1 < length calls \<longleftrightarrow> noHits (hd calls)"
        using c ne h0 by (cases calls1) (auto simp: noHits_def)
      have 0: "calls \<noteq> []" "fst (hd calls) = query" using c by simp_all
      have st: "query # searchTerms query =
        [query, query @ '', Sweden'', query @ '', Gothenburg'', query @ '', Stockholm'',
         query @ '', Malm'' @ [char_of (246 :: nat)], query]" by (simp add: searchTerms_def)
      show ?thesis using 0 1 2 3 4 5 6 unfolding st by blast
    qed
  qed
qed

lemma Promise_all_length: "Promise_all xs = Inr ys \<Longrightarrow> length ys = length xs"
  by (induction xs arbitrary: ys rule: Promise_all.induct) (auto split: sum.splits)

lemma reverseGeocodeEach_length: "reverseGeocodeEach api rs g = (as, g') \<Longrightarrow> length as = length rs"
  by (induction rs arbitrary: g as g') (auto split: prod.splits)

lemma uniqueAddresses_nonempty:
  assumes "xs \<noteq> []" and "coords (hd xs) \<noteq> None"
  shows "uniqueAddresses xs \<noteq> []"
proof -
  obtain x rest where xs: "xs = x # rest" using assms(1) by (cases xs) auto
  have s: "sameCoords x x" by (simp add: sameCoords_def)
  have "indexed xs = (0, x) # zip [Suc 0 ..< Suc (length rest)] rest"
    by (simp add: indexed_def xs upt_conv_Cons del: upt_Suc)
  then show ?thesis using assms(2) s
    by (simp add: uniqueAddresses_def xs findIndex_def)
qed

lemma lookup_frame:
  assumes "lookup api query g ui = (ui', calls, g')"
  shows "ui' = ui \<or> (searchResults ui' \<noteq> [] \<and> showSearchResults ui')"
    and "noHits (last calls) \<longrightarrow> ui' = ui"
    and "\<exists>res. geocodeWithFallback api query g = (res, calls, snd (snd (geocodeWithFallback api query g)))"
proof -
  obtain res calls0 g1 where f: "geocodeWithFallback api query g = (res, calls0, g1)"
    by (cases "geocodeWithFallback api query g")
  have c: "calls = calls0" using assms f by (auto simp: lookup_def split: sum.splits prod.splits if_splits)
  show "\<exists>res. geocodeWithFallback api query g = (res, calls, snd (snd (geocodeWithFallback api query g)))"
    using f c by simp
  have r: "res = snd (last calls)" using geocodeWithFallback_policy [OF f] c by simp
  show "noHits (last calls) \<longrightarrow> ui' = ui"
    using assms f r by (auto simp: lookup_def noHits_def split: sum.splits prod.splits if_splits)
  show "ui' = ui \<or> (searchResults ui' \<noteq> [] \<and> showSearchResults ui')"
  proof (cases res)
    case (Inl e)
    then show ?thesis using assms f by (simp add: lookup_def)
  next
    case (Inr hits)
    show ?thesis
    proof (cases "length hits > 0")
      case False
      then show ?thesis using assms f Inr by (simp add: lookup_def)
    next
      case True
      obtain answers g2 where e: "reverseGeocodeEach api hits g1 = (answers, g2)"
        by (cases "reverseGeocodeEach api hits g1")
      show ?thesis
      proof (cases "Promise_all answers")
        case (Inl e')
        then show ?thesis using assms f Inr True e by (simp add: lookup_def)
      next
        case (Inr as)
        have "length as = length hits"
          using Promise_all_length [OF Inr] reverseGeocodeEach_length [OF e] by simp
        then obtain h hs a as' where "hits = h # hs" "as = a # as'"
          using True by (cases hits; cases as) auto
        then have "map2 toSearchResult hits as \<noteq> []"
          and "coords (hd (map2 toSearchResult hits as)) \<noteq> None"
          by (simp_all add: coords_toSearchResult)
        then have "uniqueAddresses (map2 toSearchResult hits as) \<noteq> []"
          by (rule uniqueAddresses_nonempty)
        then show ?thesis using assms f \<open>res = Inr hits\<close> True e Inr by (auto simp: lookup_def)
      qed
    qed
  qed
qed


lemma lookup_calls:
  assumes "lookup api query g ui = (ui', calls, g')"
  shows "\<exists>res g1. geocodeWithFallback api query g = (res, calls, g1)"
proof -
  obtain res calls0 g1 where f: "geocodeWithFallback api query g = (res, calls0, g1)"
    by (cases "geocodeWithFallback api query g")
  have "calls = calls0"
    using assms f by (auto simp: lookup_def split: sum.splits prod.splits if_splits)
  then show ?thesis using f by blast
qed

text \<open>
  Claim C4. A lookup that runs first geocodes the query as typed. If and only if that call
  returns zero results it goes on, with the query followed by \<open>, Sweden\<close>,
  \<open>, Gothenburg\<close>, \<open>, Stockholm\<close> and \<open>, Malmo\<close> (the last letter with a diaeresis)
  in this order and at last with the query as typed once more; it stops at the first call that
  returns a result (or throws), so every call before the last one returned zero results,
  and when the last call returned zero results all six calls were made. The calls are
  answered by the service one after the other.
\<close>

theorem lookup_fallback_policy:
  assumes "lookup api query g ui = (ui', calls, g')"
  shows "calls \<noteq> [] \<and> fst (hd calls) = query \<and>
     prefix (map fst calls)
       [query, query @ '', Sweden'', query @ '', Gothenburg'', query @ '', Stockholm'',
        query @ '', Malm'' @ [char_of (246 :: nat)], query] \<and>
     calls = replay api (map fst calls) g \<and>
     (1 < length calls \<longleftrightarrow> noHits (hd calls)) \<and>
     (\<forall>c \<in> set (butlast calls). noHits c) \<and>
     (noHits (last calls) \<longrightarrow> length calls = 6)"
proof -
  from lookup_calls [OF assms] obtain res g1
    where "geocodeWithFallback api query g = (res, calls, g1)" by blast
  from geocodeWithFallback_policy [OF this] show ?thesis by blast
qed

text \<open>
  A service with no hit on its first two calls and one hit on the third: the lookup for
  \<open>Lund\<close> makes three calls and stops.
\<close>

theorem lookup_fallback_policy_witness:
  "fst (snd (lookup thirdCallApi ''Lund'' 0 initialBox)) =
     [(''Lund'', Inr []), (''Lund, Sweden'', Inr []),
      (''Lund, Gothenburg'', Inr [\<lparr>latitude = 57.7, longitude = 11.9\<rparr>])] \<and>
   noHits (hd (fst (snd (lookup thirdCallApi ''Lund'' 0 initialBox)))) \<and>
   1 < length (fst (snd (lookup thirdCallApi ''Lund'' 0 initialBox)))"
proof -
  have g: "geocodeWithFallback thirdCallApi ''Lund'' 0 =
     (Inr [\<lparr>latitude = 57.7, longitude = 11.9\<rparr>],
      [(''Lund'', Inr []), (''Lund, Sweden'', Inr []),
       (''Lund, Gothenburg'', Inr [\<lparr>latitude = 57.7, longitude = 11.9\<rparr>])], 3)"
    by (simp add: geocodeWithFallback_def thirdCallApi_def searchTerms_def)
  obtain ui' calls g' where l: "lookup thirdCallApi ''Lund'' 0 initialBox = (ui', calls, g')"
    by (cases "lookup thirdCallApi ''Lund'' 0 initialBox")
  from lookup_calls [OF l] g have c: "calls =
     [(''Lund'', Inr []), (''Lund, Sweden'', Inr []),
      (''Lund, Gothenburg'', Inr [\<lparr>latitude = 57.7, longitude = 11.9\<rparr>])]"
    by simp
  from lookup_fallback_policy [OF l] have "1 < length calls \<longleftrightarrow> noHits (hd calls)"
    by blast
  then show ?thesis using c by (simp add: l)
qed

section \<open>An empty result set leaves the result list alone\<close>

text \<open>
  Claim C9. When the lookup that runs finds nothing (its last geocode call returned zero
  results, which means that all six calls were made and each returned zero results), the
  state of the search box is left as it was: the results of an earlier query and their
  visibility stay. A lookup never empties the list: it leaves the state unchanged or shows
  a list that is not empty. \<^verbatim>\<open>handleSearch\<close> itself empties and hides the list exactly for
  a query of white space only.
\<close>

theorem empty_lookup_keeps_results:
  assumes "lookup api query g ui = (ui', calls, g')"
  shows "(noHits (last calls) \<longrightarrow>
            ui' = ui \<and> list_all noHits calls \<and> map fst calls = query # searchTerms query) \<and>
         (ui' = ui \<or> (searchResults ui' \<noteq> [] \<and> showSearchResults ui')) \<and>
         (trim q \<noteq> [] \<longrightarrow>
            searchResults (handleSearch now q b) = searchResults b \<and>
            showSearchResults (handleSearch now q b) = showSearchResults b) \<and>
         (trim q = [] \<longrightarrow>
            searchResults (handleSearch now q b) = [] \<and> \<not> showSearchResults (handleSearch now q b))"
proof -
  from lookup_calls [OF assms] obtain res g1
    where f: "geocodeWithFallback api query g = (res, calls, g1)" by blast
  note p = geocodeWithFallback_policy [OF f]
  have 1: "noHits (last calls) \<longrightarrow>
            ui' = ui \<and> list_all noHits calls \<and> map fst calls = query # searchTerms query"
  proof
    assume n: "noHits (last calls)"
    have ne: "calls \<noteq> []" using p by blast
    have "set calls = set (butlast calls) \<union> {last calls}"
      using append_butlast_last_id [OF ne] by (metis Un_insert_right list.set(2) set_append
          sup_bot.right_neutral rotate1.simps(2) set_rotate1)
    then have a: "list_all noHits calls" using p n by (auto simp: list_all_iff)
    have "length (map fst calls) = 6" using p n by simp
    moreover have "prefix (map fst calls) (query # searchTerms query)"
      using p by (simp add: searchTerms_def)
    ultimately have m: "map fst calls = query # searchTerms query"
    proof -
      assume len: "length (map fst calls) = 6"
        and "prefix (map fst calls) (query # searchTerms query)"
      then obtain zs where z: "query # searchTerms query = map fst calls @ zs"
        by (auto simp: prefix_def)
      have "length (query # searchTerms query) = 6" by (simp add: searchTerms_def)
      then have "length (map fst calls @ zs) = 6" using z by simp
      then have "zs = []" using len by simp
      then show ?thesis using z by simp
    qed
    show "ui' = ui \<and> list_all noHits calls \<and> map fst calls = query # searchTerms query"
      using lookup_frame(2) [OF assms] n a m by blast
  qed
  have 3: "trim q \<noteq> [] \<longrightarrow>
            searchResults (handleSearch now q b) = searchResults b \<and>
            showSearchResults (handleSearch now q b) = showSearchResults b"
    by (simp add: handleSearch_def Let_def clearTimeout_def split: option.splits)
  have 4: "trim q = [] \<longrightarrow>
            searchResults (handleSearch now q b) = [] \<and> \<not> showSearchResults (handleSearch now q b)"
    by (simp add: handleSearch_def Let_def clearTimeout_def split: option.splits)
  show ?thesis using 1 lookup_frame(1) [OF assms] 3 4 by blast
qed

text \<open>
  A box that shows a result of an earlier query, and a service that finds nothing: after
  the lookup for \<open>zzz\<close> (six calls) the box is as before. Typing \<open>zzz\<close> does not touch
  the list, typing a blank empties it.
\<close>

theorem empty_lookup_keeps_results_witness:
  "noHits (last (fst (snd (lookup noAddressApi ''zzz'' () shownBox)))) \<and>
   length (fst (snd (lookup noAddressApi ''zzz'' () shownBox))) = 6 \<and>
   fst (lookup noAddressApi ''zzz'' () shownBox) = shownBox \<and>
   searchResults shownBox = [bareResult] \<and>
   trim ''zzz'' \<noteq> [] \<and>
   searchResults (handleSearch 0 ''zzz'' shownBox) = [bareResult] \<and>
   trim '' '' = [] \<and>
   searchResults (handleSearch 0 '' '' shownBox) = []"
proof -
  have g: "geocodeWithFallback noAddressApi ''zzz'' () =
     (Inr [], map (\<lambda>t. (t, Inr [])) (''zzz'' # searchTerms ''zzz''), ())"
    by (simp add: geocodeWithFallback_def noAddressApi_def searchTerms_def)
  obtain ui' calls g' where l: "lookup noAddressApi ''zzz'' () shownBox = (ui', calls, g')"
    by (cases "lookup noAddressApi ''zzz'' () shownBox")
  from lookup_calls [OF l] g have c: "calls = map (\<lambda>t. (t, Inr [])) (''zzz'' # searchTerms ''zzz'')"
    by simp
  then have n: "noHits (last calls)" and len: "length calls = 6"
    by (simp_all add: noHits_def searchTerms_def)
  have t1: "trim ''zzz'' \<noteq> []" and t2: "trim '' '' = []"
    by (simp_all add: trim_def isWhiteSpace_def)
  note e = empty_lookup_keeps_results [OF l, of "''zzz''" 0 shownBox]
    empty_lookup_keeps_results [OF l, of "'' ''" 0 shownBox]
  have s: "searchResults shownBox = [bareResult]" by (simp add: shownBox_def)
  show ?thesis using e n len t1 t2 s by (simp add: l)
qed

section \<open>Only the last of a burst of searches is looked up\<close>

lemma lookup_keeps:
  fixes b :: "('g, 'u) SearchBox_scheme"
  assumes "lookup api q g b = (b', calls, g')"
  shows "pending b' = pending b \<and> nextHandle b' = nextHandle b \<and>
         searchTimeout b' = searchTimeout b \<and> lookups b' = lookups b"
  using assms by (auto simp: lookup_def split: sum.splits prod.splits if_splits)

lemma fire_fields:
  fixes b :: "('g, 'u) SearchBox_scheme"
  shows "pending (fire api t b) = filter (\<lambda>u. handle u \<noteq> handle t) (pending b) \<and>
         nextHandle (fire api t b) = nextHandle b \<and>
         searchTimeout (fire api t b) = searchTimeout b \<and>
         lookups (fire api t b) = lookups b @ [timer_query t]"
proof -
  obtain b2 calls g' where l: "lookup api (timer_query t) (service (clearTimeout (handle t) b))
      (clearTimeout (handle t) b) = (b2, calls, g')"
    by (cases "lookup api (timer_query t) (service (clearTimeout (handle t) b)) (clearTimeout (handle t) b)")
  from lookup_keeps [OF l] l show ?thesis
    by (simp add: fire_def Let_def clearTimeout_def)
qed

lemma advance_idle:
  "\<forall>t \<in> set (pending b). now < due t \<Longrightarrow> advance api now b = b"
proof -
  assume "\<forall>t \<in> set (pending b). now < due t"
  then have "filter (\<lambda>t. due t \<le> now) (pending b) = []"
    by (auto simp: filter_empty_conv)
  then show ?thesis by (simp add: advance_def)
qed

lemma debounced_cases:
  "debounced b \<Longrightarrow> pending b = [] \<or> (\<exists>t. pending b = [t] \<and> searchTimeout b = Some (handle t) \<and> handle t < nextHandle b)"
  by (cases "pending b"; cases "tl (pending b)") (auto simp: debounced_def)

lemma handleSearch_step:
  fixes b :: "('g, 'u) SearchBox_scheme"
  assumes "debounced b"
  shows "debounced (handleSearch now q b) \<and>
         lookups (handleSearch now q b) = lookups b \<and>
         schedule (handleSearch now q b) = (if trim q = [] then [] else [(now + 300, q)])"
  using debounced_cases [OF assms]
  by (auto simp: handleSearch_def Let_def clearTimeout_def debounced_def schedule_def split: option.splits)

lemma advance_debounced:
  fixes b :: "('g, 'u) SearchBox_scheme"
  assumes "debounced b"
  shows "debounced (advance api now b) \<and>
         lookups (advance api now b) = lookups b @ map snd (filter (\<lambda>c. fst c \<le> now) (schedule b)) \<and>
         schedule (advance api now b) = filter (\<lambda>c. \<not> fst c \<le> now) (schedule b)"
  using debounced_cases [OF assms]
proof
  assume "pending b = []"
  then show ?thesis using assms by (simp add: advance_def schedule_def)
next
  assume "\<exists>t. pending b = [t] \<and> searchTimeout b = Some (handle t) \<and> handle t < nextHandle b"
  then obtain t where t: "pending b = [t]" by blast
  show ?thesis
  proof (cases "due t \<le> now")
    case True
    then have "advance api now b = fire api t b" by (simp add: advance_def t)
    then show ?thesis using fire_fields [of api t b] t True
      by (simp add: debounced_def schedule_def)
  next
    case False
    then have "advance api now b = b" by (simp add: advance_def t)
    then show ?thesis using assms t False by (simp add: schedule_def)
  qed
qed

lemma searchCalls_chain:
  fixes b :: "('g, 'u) SearchBox_scheme"
  assumes "debounced b" and "schedule b = (if trim (snd c) = [] then [] else [(fst c + 300, snd c)])"
    and "withinWindow (c # cs)"
  shows "debounced (searchCalls api cs b) \<and>
         lookups (searchCalls api cs b) = lookups b \<and>
         schedule (searchCalls api cs b) =
           (if trim (snd (last (c # cs))) = [] then [] else [(fst (last (c # cs)) + 300, snd (last (c # cs)))])"
  using assms
proof (induction cs arbitrary: b c)
  case Nil
  then show ?case by (simp add: searchCalls_def)
next
  case (Cons d cs)
  have w: "fst d < fst c + 300" "withinWindow (d # cs)" using Cons.prems(3) by simp_all
  have "filter (\<lambda>c. fst c \<le> fst d) (schedule b) = []" using Cons.prems(2) w(1) by simp
  then have adv: "debounced (advance api (fst d) b)"
    "lookups (advance api (fst d) b) = lookups b"
    "schedule (advance api (fst d) b) = schedule b"
    using advance_debounced [OF Cons.prems(1), of api "fst d"]
    by (simp_all add: filter_empty_conv filter_id_conv)
  let ?b1 = "searchAt api d b"
  have s: "debounced ?b1" "lookups ?b1 = lookups b"
    "schedule ?b1 = (if trim (snd d) = [] then [] else [(fst d + 300, snd d)])"
    using handleSearch_step [OF adv(1), of "fst d" "snd d"] adv(2) by (simp_all add: searchAt_def)
  have "searchCalls api (d # cs) b = searchCalls api cs ?b1" by (simp add: searchCalls_def)
  then show ?case using Cons.IH [OF s(1) s(3) w(2)] s(2) by simp
qed

text \<open>
  Claim C8. Take a search box in which at most the lookup scheduled last is pending (every
  state the screen reaches is such), and calls of \<^verbatim>\<open>handleSearch\<close> of which each comes
  less than 300 ms after the one before. Each call removes the lookup scheduled before it
  and then schedules its own, 300 ms ahead (none, for a query of white space only): after
  a call the only lookup pending is its own. So no lookup runs during the calls, and once
  300 ms have passed after the last call exactly the lookup of the last call has run.
\<close>

theorem debounce_last_call_only:
  fixes b :: "('g, 'u) SearchBox_scheme"
  assumes "debounced b" and "withinWindow (c # cs)" and "fst (last (c # cs)) + 300 \<le> T"
  shows "schedule (handleSearch (fst c) (snd c) b) = (if trim (snd c) = [] then [] else [(fst c + 300, snd c)]) \<and>
         lookups (searchCalls api (c # cs) b) = lookups (advance api (fst c) b) \<and>
         lookups (advance api T (searchCalls api (c # cs) b)) =
           lookups (advance api (fst c) b) @
             (if trim (snd (last (c # cs))) = [] then [] else [snd (last (c # cs))])"
proof -
  have a: "debounced (advance api (fst c) b)"
    using advance_debounced [OF assms(1)] by blast
  let ?b1 = "searchAt api c b"
  have s: "debounced ?b1" "lookups ?b1 = lookups (advance api (fst c) b)"
    "schedule ?b1 = (if trim (snd c) = [] then [] else [(fst c + 300, snd c)])"
    using handleSearch_step [OF a, of "fst c" "snd c"] by (simp_all add: searchAt_def)
  have e: "searchCalls api (c # cs) b = searchCalls api cs ?b1" by (simp add: searchCalls_def)
  have ch: "debounced (searchCalls api (c # cs) b)"
    "lookups (searchCalls api (c # cs) b) = lookups (advance api (fst c) b)"
    "schedule (searchCalls api (c # cs) b) =
           (if trim (snd (last (c # cs))) = [] then [] else [(fst (last (c # cs)) + 300, snd (last (c # cs)))])"
    using searchCalls_chain [OF s(1) s(3) assms(2), of api] s(2) unfolding e by simp_all
  have 1: "schedule (handleSearch (fst c) (snd c) b) = (if trim (snd c) = [] then [] else [(fst c + 300, snd c)])"
    using handleSearch_step [OF assms(1)] by blast
  have 3: "lookups (advance api T (searchCalls api (c # cs) b)) =
           lookups (advance api (fst c) b) @
             (if trim (snd (last (c # cs))) = [] then [] else [snd (last (c # cs))])"
    using advance_debounced [OF ch(1), of api T] ch(2,3) assms(3) by simp
  show ?thesis using 1 ch(2) 3 by blast
qed

text \<open>
  Three keystrokes at 0, 100 and 250 ms: at 550 ms one lookup has run, for \<open>abc\<close>.
\<close>

theorem debounce_last_call_only_witness:
  "debounced initialBox \<and>
   withinWindow [(0, ''a''), (100, ''ab''), (250, ''abc'')] \<and>
   lookups (searchCalls noAddressApi [(0, ''a''), (100, ''ab''), (250, ''abc'')] initialBox) = [] \<and>
   lookups (advance noAddressApi 550
      (searchCalls noAddressApi [(0, ''a''), (100, ''ab''), (250, ''abc'')] initialBox)) = [''abc'']"
proof -
  have d: "debounced initialBox" by (simp add: debounced_def initialBox_def)
  have w: "withinWindow [(0, ''a''), (100, ''ab''), (250, ''abc'')]" by simp
  have t: "fst (last [(0 :: nat, ''a''), (100, ''ab''), (250, ''abc'')]) + 300 \<le> 550" by simp
  have a: "advance noAddressApi 0 initialBox = initialBox"
    by (simp add: advance_def initialBox_def)
  have n: "trim ''abc'' \<noteq> []" by (simp add: trim_def isWhiteSpace_def)
  have l: "lookups initialBox = []" by (simp add: initialBox_def)
  show ?thesis
    using debounce_last_call_only [OF d w t, of noAddressApi] d w a n l by simp
qed

section \<open>Submitting the form\<close>

lemma payloads_append: "payloads (xs @ ys) = payloads xs @ payloads ys"
proof (induction xs)
  case Nil
  show ?case by simp
next
  case (Cons a xs)
  show ?case
  proof (cases a)
    case (SelectRoute x) then show ?thesis using Cons.IH by simp
  next
    case (SelectMediaAttachments x) then show ?thesis using Cons.IH by simp
  next
    case (UpdateRoute x p) then show ?thesis using Cons.IH by simp
  next
    case (InsertRoute p) then show ?thesis using Cons.IH by simp
  next
    case (UploadFile x) then show ?thesis using Cons.IH by simp
  next
    case (UpdateMediaAttachments x ms) then show ?thesis using Cons.IH by simp
  qed
qed

lemma uploadItem_payloads: "uploadItem env i item db = (err, db', reqs) \<Longrightarrow> payloads reqs = []"
  by (auto simp: uploadItem_def Let_def split: option.splits)

lemma uploadItems_payloads: "uploadItems env i items db = (err, db', reqs) \<Longrightarrow> payloads reqs = []"
proof (induction items arbitrary: db err db' reqs)
  case Nil then show ?case by simp
next
  case (Cons item items)
  obtain e1 db1 r1 where u: "uploadItem env i item db = (e1, db1, r1)" by (cases "uploadItem env i item db")
  show ?case
  proof (cases e1)
    case (Some e)
    with u Cons.prems uploadItem_payloads [OF u] show ?thesis by simp
  next
    case None
    obtain e2 db2 r2 where v: "uploadItems env i items db1 = (e2, db2, r2)"
      by (cases "uploadItems env i items db1")
    from Cons.IH [OF v] uploadItem_payloads [OF u] u v None Cons.prems show ?thesis
      by (auto simp: payloads_append)
  qed
qed

lemma afterWrite_payloads:
  "afterWrite env i s db reqs = (s', db', reqs') \<Longrightarrow> payloads reqs' = payloads reqs"
  by (auto simp: afterWrite_def Let_def uploadMediaInBackground_def payloads_append
      split: if_splits prod.splits dest: uploadItems_payloads)

lemma handleCreate_payloads:
  assumes "user env = Some u" and "user_id u \<noteq> []" and "trim (fd_name (formData s)) \<noteq> []"
    and "handleCreate env db s = (s', db', reqs)"
  shows "payloads reqs =
     [case editing env of
        Some i \<Rightarrow> baseRouteData env u s (mediaToUpdate (storedAttachments db i) (media s))
      | None \<Rightarrow> (baseRouteData env u s (map toMediaUrl (media s)))\<lparr>created_at := Some (toISOString env)\<rparr>]"
proof (cases "editing env")
  case None
  let ?payload = "(baseRouteData env u s (map toMediaUrl (media s)))\<lparr>created_at := Some (toISOString env)\<rparr>"
  from None assms have "afterWrite env (newRouteId env) (s\<lparr>loading := True, error := None\<rparr>)
      (insertRoute (newRouteId env) ?payload db) [InsertRoute ?payload] = (s', db', reqs)"
    by (simp add: handleCreate_def Let_def)
  from afterWrite_payloads [OF this] None show ?thesis by simp
next
  case (Some i)
  let ?payload = "baseRouteData env u s (mediaToUpdate (storedAttachments db i) (media s))"
  show ?thesis
  proof (cases "updateRoute i ?payload db")
    case (Pair r db1)
    show ?thesis
    proof (cases r)
      case (Inl e)
      with Pair Some assms show ?thesis by (auto simp: handleCreate_def Let_def)
    next
      case (Inr row)
      with Pair Some assms have "afterWrite env i (s\<lparr>loading := True, error := None\<rparr>) db1
          [SelectMediaAttachments i, UpdateRoute i ?payload] = (s', db', reqs)"
        by (simp add: handleCreate_def Let_def)
      from afterWrite_payloads [OF this] Some show ?thesis by simp
    qed
  qed
qed


lemma example_names: "trim ''Loop'' \<noteq> []" "trim ''  '' = []"
  by (simp_all add: trim_def isWhiteSpace_def)

lemma waypointLabel_1: "waypointLabel 1 = ''Waypoint 1''" "waypointLabel (Suc 0) = ''Waypoint 1''"
  by (simp_all add: waypointLabel_def string_of_nat.simps [of "Suc 0"] digit_def)

text \<open>
  Claim C5. When no user is signed in (or the user has no identifier), or the route name is
  empty once white space is trimmed, \<^verbatim>\<open>handleCreate\<close> shows one alert and does nothing
  else: it issues no request to the backend, the backend is as before, and the screen
  state is as before but for the alert.
\<close>

theorem submit_guard:
  assumes "user env = None \<or> (\<exists>u. user env = Some u \<and> user_id u = []) \<or>
           trim (fd_name (formData s)) = []"
  shows "handleCreate env db s =
           (s\<lparr>alerts := alerts s @
               [(''Error'',
                 if user env = None \<or> (\<exists>u. user env = Some u \<and> user_id u = [])
                 then ''Please sign in to create a route'' else ''Please enter a route name'')]\<rparr>,
            db, [])"
  using assms by (auto simp: handleCreate_def split: option.splits)

text \<open>
  Without a user the sign-in alert is shown; with a user and the name of two blanks the
  alert asks for a name. In both cases nothing is requested from the backend.
\<close>

theorem submit_guard_witness:
  "user signedOutEnv = None \<and>
   handleCreate signedOutEnv storedAB namedScreen =
     (namedScreen\<lparr>alerts := [(''Error'', ''Please sign in to create a route'')]\<rparr>, storedAB, []) \<and>
   trim (fd_name (formData blankNameScreen)) = [] \<and>
   handleCreate createEnv storedAB blankNameScreen =
     (blankNameScreen\<lparr>alerts := [(''Error'', ''Please enter a route name'')]\<rparr>, storedAB, [])"
proof -
  have u: "user signedOutEnv = None" by (simp add: signedOutEnv_def)
  have n: "trim (fd_name (formData blankNameScreen)) = []"
    by (simp add: blankNameScreen_def example_names)
  have c: "user createEnv = Some \<lparr>user_id = ''u1''\<rparr>" by (simp add: createEnv_def)
  have a: "alerts namedScreen = []" "alerts blankNameScreen = []"
    by (simp_all add: namedScreen_def blankNameScreen_def initialScreen_def)
  have 1: "handleCreate signedOutEnv storedAB namedScreen =
     (namedScreen\<lparr>alerts := [(''Error'', ''Please sign in to create a route'')]\<rparr>, storedAB, [])"
    using submit_guard [of signedOutEnv namedScreen storedAB] u a by simp
  have 2: "handleCreate createEnv storedAB blankNameScreen =
     (blankNameScreen\<lparr>alerts := [(''Error'', ''Please enter a route name'')]\<rparr>, storedAB, [])"
    using submit_guard [of createEnv blankNameScreen storedAB] n a by (simp add: c)
  show ?thesis using u n 1 2 by blast
qed

text \<open>
  Claim C1. A submission in edit mode that passes the checks of user and name issues one
  record write, and the \<open>media_attachments\<close> of its payload are: the attachments stored
  for the route whose url is the uri of an item of the local media list, in stored order,
  followed by the local media items whose uri is not the url of a stored attachment and
  does not start with \<open>http\<close>, in local order, each as an attachment.
\<close>

theorem edit_media_reconciliation:
  assumes "user env = Some u" and "user_id u \<noteq> []" and "trim (fd_name (formData s)) \<noteq> []"
    and "editing env = Some i" and "handleCreate env db s = (s', db', reqs)"
  shows "map media_attachments (payloads reqs) =
     [Some (filter (\<lambda>m. url m \<in> uri ` set (media s)) (storedAttachments db i) @
            map toMediaUrl
              (filter (\<lambda>m. uri m \<notin> url ` set (storedAttachments db i) \<and>
                          \<not> startsWith (uri m) ''http'')
                 (media s)))]"
  unfolding handleCreate_payloads [OF assms(1,2,3,5)]
  by (simp add: assms(4) baseRouteData_def mediaToUpdate_def Let_def)

text \<open>
  The route is stored with the attachments \<open>http://a\<close> and \<open>http://b\<close> and the local
  media are \<open>http://a\<close> and \<open>file://new\<close>: the payload keeps \<open>a\<close>, drops \<open>b\<close> and
  has the new item.
\<close>

theorem edit_media_reconciliation_witness:
  "user editEnv = Some \<lparr>user_id = ''u1''\<rparr> \<and> editing editEnv = Some ''r1'' \<and>
   trim (fd_name (formData editingScreen)) \<noteq> [] \<and>
   map url (storedAttachments storedAB ''r1'') = [''http://a'', ''http://b''] \<and>
   map uri (media editingScreen) = [''http://a'', ''file://new''] \<and>
   map media_attachments (payloads (snd (snd (handleCreate editEnv storedAB editingScreen)))) =
     [Some [\<lparr>mu_type = Image, url = ''http://a'', mu_description = None\<rparr>,
            \<lparr>mu_type = Image, url = ''file://new'', mu_description = None\<rparr>]]"
proof -
  have u: "user editEnv = Some \<lparr>user_id = ''u1''\<rparr>" and i: "user_id \<lparr>user_id = ''u1''\<rparr> \<noteq> []"
    and e: "editing editEnv = Some ''r1''"
    by (simp_all add: editEnv_def createEnv_def editing_def)
  have n: "trim (fd_name (formData editingScreen)) \<noteq> []"
    by (simp add: editingScreen_def namedScreen_def example_names)
  have st: "storedAttachments storedAB ''r1'' =
      [\<lparr>mu_type = Image, url = ''http://a'', mu_description = None\<rparr>,
       \<lparr>mu_type = Image, url = ''http://b'', mu_description = None\<rparr>]"
    by (simp add: storedAttachments_def storedAB_def blankRoute_def)
  have m: "media editingScreen =
     [\<lparr>mi_id = ''1'', mi_type = Image, uri = ''http://a'', fileName = ''a'',
       mi_description = None, thumbnail = None\<rparr>,
      \<lparr>mi_id = ''2'', mi_type = Image, uri = ''file://new'', fileName = ''new'',
       mi_description = None, thumbnail = None\<rparr>]"
    by (simp add: editingScreen_def)
  have h: "handleCreate editEnv storedAB editingScreen =
      (fst (handleCreate editEnv storedAB editingScreen),
       fst (snd (handleCreate editEnv storedAB editingScreen)),
       snd (snd (handleCreate editEnv storedAB editingScreen)))"
    by simp
  show ?thesis
    using edit_media_reconciliation [OF u i n e h] u e n
    unfolding st m by (simp add: startsWith_def toMediaUrl_def)
qed

section \<open>Waypoints written and read back\<close>

lemma toWaypoint_waypointDetails: "map toWaypoint (waypointDetails wps) = relabelled wps"
  by (simp add: waypointDetails_def relabelled_def toWaypoint_def split_def)

lemma length_indexed: "length (indexed xs) = length xs"
  by (simp add: indexed_def)

lemma map_snd_indexed: "map snd (indexed xs) = xs"
  by (simp add: indexed_def)

lemma relabelled_props:
  "length (relabelled wps) = length wps \<and>
   map latitude (relabelled wps) = map latitude wps \<and>
   map longitude (relabelled wps) = map longitude wps \<and>
   map description (relabelled wps) = map description wps"
proof -
  have "map latitude (relabelled wps) = map latitude (map snd (indexed wps))"
    and "map longitude (relabelled wps) = map longitude (map snd (indexed wps))"
    and "map description (relabelled wps) = map description (map snd (indexed wps))"
    by (simp_all add: relabelled_def split_def)
  then show ?thesis by (simp add: map_snd_indexed) (simp add: relabelled_def length_indexed)
qed

lemma relabelled_titled:
  assumes "\<forall>wp \<in> set wps. title wp \<noteq> []"
  shows "relabelled wps = wps"
proof -
  have "relabelled wps = map snd (indexed wps)"
    unfolding relabelled_def
  proof (rule map_cong [OF refl])
    fix x assume x: "x \<in> set (indexed wps)"
    obtain n wp where xe: "x = (n, wp)" by (cases x)
    have "wp \<in> set wps" using x unfolding xe indexed_def by (rule set_zip_rightD)
    then have "title (snd x) \<noteq> []" using assms xe by simp
    then show "(case x of (n, wp) \<Rightarrow> wp\<lparr>title := or_else (title wp) (waypointLabel (n + 1))\<rparr>) = snd x"
      by (simp add: split_def or_else_def)
  qed
  then show ?thesis by (simp add: map_snd_indexed)
qed

lemma updateMediaAttachments_waypoints:
  "waypointColumn (updateMediaAttachments i ms db) j = waypointColumn db j"
  by (simp add: updateMediaAttachments_def waypointColumn_def split: option.splits)

lemma uploadItem_waypoints:
  "uploadItem env i item db = (err, db', reqs) \<Longrightarrow> waypointColumn db' j = waypointColumn db j"
proof -
  assume a: "uploadItem env i item db = (err, db', reqs)"
  have f: "waypointColumn (db\<lparr>files := fs\<rparr>) j = waypointColumn db j" for fs
    by (simp add: waypointColumn_def)
  from a show ?thesis
    by (auto simp: uploadItem_def Let_def updateMediaAttachments_waypoints f split: option.splits)
qed

lemma uploadItems_waypoints:
  "uploadItems env i items db = (err, db', reqs) \<Longrightarrow> waypointColumn db' j = waypointColumn db j"
proof (induction items arbitrary: db err db' reqs)
  case Nil then show ?case by simp
next
  case (Cons item items)
  obtain e1 db1 r1 where u: "uploadItem env i item db = (e1, db1, r1)" by (cases "uploadItem env i item db")
  show ?case
  proof (cases e1)
    case (Some e)
    with u Cons.prems uploadItem_waypoints [OF u] show ?thesis by simp
  next
    case None
    obtain e2 db2 r2 where v: "uploadItems env i items db1 = (e2, db2, r2)"
      by (cases "uploadItems env i items db1")
    from Cons.IH [OF v] uploadItem_waypoints [OF u] u v None Cons.prems show ?thesis
      by auto
  qed
qed

lemma afterWrite_waypoints:
  "afterWrite env i s db reqs = (s', db', reqs') \<Longrightarrow> waypointColumn db' j = waypointColumn db j"
  by (auto simp: afterWrite_def Let_def uploadMediaInBackground_def
      split: if_splits prod.splits dest: uploadItems_waypoints)

lemma loadRouteData_waypoints:
  "waypointColumn db i = Some (Some details) \<Longrightarrow>
   waypoints (loadRouteData lenv db i s) = map toWaypoint details"
  by (auto simp: loadRouteData_def waypointColumn_def Let_def split: option.splits list.splits)

lemma handleCreate_waypointColumn:
  assumes "user env = Some u" and "user_id u \<noteq> []" and "trim (fd_name (formData s)) \<noteq> []"
    and "\<forall>i. editing env = Some i \<longrightarrow> routes db i \<noteq> None"
    and "handleCreate env db s = (s', db', reqs)"
  shows "waypointColumn db' (writtenId env) = Some (Some (waypointDetails (waypoints s)))"
proof (cases "editing env")
  case None
  let ?payload = "(baseRouteData env u s (map toMediaUrl (media s)))\<lparr>created_at := Some (toISOString env)\<rparr>"
  from None assms have "afterWrite env (newRouteId env) (s\<lparr>loading := True, error := None\<rparr>)
      (insertRoute (newRouteId env) ?payload db) [InsertRoute ?payload] = (s', db', reqs)"
    by (simp add: handleCreate_def Let_def)
  from afterWrite_waypoints [OF this, of "newRouteId env"] None show ?thesis
    by (simp add: writtenId_def waypointColumn_def insertRoute_def baseRouteData_def)
next
  case (Some i)
  let ?payload = "baseRouteData env u s (mediaToUpdate (storedAttachments db i) (media s))"
  from Some assms(4) obtain old where old: "routes db i = Some old" by auto
  let ?db1 = "db\<lparr>routes := (routes db)(i \<mapsto> ?payload\<lparr>created_at := created_at old\<rparr>)\<rparr>"
  have up: "updateRoute i ?payload db = (Inr (?payload\<lparr>created_at := created_at old\<rparr>), ?db1)"
    by (simp add: updateRoute_def old Let_def)
  from Some assms up have "afterWrite env i (s\<lparr>loading := True, error := None\<rparr>) ?db1
      [SelectMediaAttachments i, UpdateRoute i ?payload] = (s', db', reqs)"
    by (simp add: handleCreate_def Let_def)
  from afterWrite_waypoints [OF this, of i] Some show ?thesis
    by (simp add: writtenId_def waypointColumn_def baseRouteData_def)
qed

text \<open>
  Claim C6, amended. A submission that passes the checks (in edit mode, of a route that
  exists) writes the waypoints, each as \<open>{lat, lng, title, description}\<close> and in order,
  into both \<open>waypoint_details\<close> and \<open>metadata.waypoints\<close>. Loading the written route
  gives a waypoint list of the same length, in the same order, with the same coordinates
  and descriptions; the title of a waypoint is the same when it is not empty, and an empty
  title comes back as \<open>Waypoint N\<close>, with \<open>N\<close> the position of the waypoint counted
  from one. When no title is empty the list comes back as it was.
\<close>

theorem waypoints_round_trip:
  assumes "user env = Some u" and "user_id u \<noteq> []" and "trim (fd_name (formData s)) \<noteq> []"
    and "\<forall>i. editing env = Some i \<longrightarrow> routes db i \<noteq> None"
    and "handleCreate env db s = (s', db', reqs)"
  shows "(\<forall>p \<in> set (payloads reqs).
            waypoint_details p = Some (waypointDetails (waypoints s)) \<and>
            map_option md_waypoints (metadata p) = Some (Some (waypointDetails (waypoints s)))) \<and>
         waypoints (loadRouteData lenv db' (writtenId env) s0) = relabelled (waypoints s) \<and>
         length (waypoints (loadRouteData lenv db' (writtenId env) s0)) = length (waypoints s) \<and>
         map latitude (waypoints (loadRouteData lenv db' (writtenId env) s0)) = map latitude (waypoints s) \<and>
         map longitude (waypoints (loadRouteData lenv db' (writtenId env) s0)) = map longitude (waypoints s) \<and>
         ((\<forall>wp \<in> set (waypoints s). title wp \<noteq> []) \<longrightarrow>
            waypoints (loadRouteData lenv db' (writtenId env) s0) = waypoints s)"
proof -
  have l: "waypoints (loadRouteData lenv db' (writtenId env) s0) = relabelled (waypoints s)"
    using loadRouteData_waypoints [OF handleCreate_waypointColumn [OF assms]]
    by (simp add: toWaypoint_waypointDetails)
  have p: "\<forall>p \<in> set (payloads reqs).
            waypoint_details p = Some (waypointDetails (waypoints s)) \<and>
            map_option md_waypoints (metadata p) = Some (Some (waypointDetails (waypoints s)))"
    unfolding handleCreate_payloads [OF assms(1,2,3,5)]
    by (simp add: baseRouteData_def split: option.splits)
  have t: "(\<forall>wp \<in> set (waypoints s). title wp \<noteq> []) \<longrightarrow>
            waypoints (loadRouteData lenv db' (writtenId env) s0) = waypoints s"
    unfolding l using relabelled_titled by blast
  show ?thesis using p t relabelled_props [of "waypoints s"] unfolding l by blast
qed

text \<open>
  The route created with the waypoints \<open>(37.0, -122.0, A)\<close> and \<open>(37.1, -122.1, B)\<close>
  loads with the same two waypoints in order.
\<close>

theorem waypoints_round_trip_witness:
  "user createEnv = Some \<lparr>user_id = ''u1''\<rparr> \<and> editing createEnv = None \<and>
   writtenId createEnv = ''r1'' \<and>
   trim (fd_name (formData screenAB)) \<noteq> [] \<and>
   waypoints (loadRouteData loadEnv (fst (snd (handleCreate createEnv emptyBackend screenAB)))
                ''r1'' initialScreen) =
     [\<lparr>latitude = 37.0, longitude = - 122.0, title = ''A'', description = ''Tapped location''\<rparr>,
      \<lparr>latitude = 37.1, longitude = - 122.1, title = ''B'', description = ''Tapped location''\<rparr>]"
proof -
  have u: "user createEnv = Some \<lparr>user_id = ''u1''\<rparr>" and i: "user_id \<lparr>user_id = ''u1''\<rparr> \<noteq> []"
    and e: "editing createEnv = None" and w: "writtenId createEnv = ''r1''"
    by (simp_all add: createEnv_def editing_def writtenId_def)
  have n: "trim (fd_name (formData screenAB)) \<noteq> []"
    by (simp add: screenAB_def namedScreen_def example_names)
  have x: "\<forall>i. editing createEnv = Some i \<longrightarrow> routes emptyBackend i \<noteq> None"
    by (simp add: e)
  have wps: "waypoints screenAB =
     [\<lparr>latitude = 37.0, longitude = - 122.0, title = ''A'', description = ''Tapped location''\<rparr>,
      \<lparr>latitude = 37.1, longitude = - 122.1, title = ''B'', description = ''Tapped location''\<rparr>]"
    by (simp add: screenAB_def)
  have t: "\<forall>wp \<in> set (waypoints screenAB). title wp \<noteq> []"
    unfolding wps by simp
  have h: "handleCreate createEnv emptyBackend screenAB =
      (fst (handleCreate createEnv emptyBackend screenAB),
       fst (snd (handleCreate createEnv emptyBackend screenAB)),
       snd (snd (handleCreate createEnv emptyBackend screenAB)))"
    by simp
  from waypoints_round_trip [OF u i n x h, of loadEnv initialScreen] t
  have "waypoints (loadRouteData loadEnv (fst (snd (handleCreate createEnv emptyBackend screenAB)))
                (writtenId createEnv) initialScreen) = waypoints screenAB"
    by blast
  then show ?thesis using u e w n unfolding wps by simp
qed

text \<open>
  Claim C6 as stated fails on titles. The user selects a search result that has no street,
  city or country, so the waypoint has the empty title; the route is created and loaded:
  the title is now \<open>Waypoint 1\<close>.
\<close>

theorem waypoints_round_trip_counterexample:
  "map title (waypoints untitledScreen) = [[]] \<and>
   map title (waypoints (loadRouteData loadEnv
       (fst (snd (handleCreate createEnv emptyBackend untitledScreen))) ''r1'' initialScreen)) =
     [''Waypoint 1'']"
proof -
  have u: "user createEnv = Some \<lparr>user_id = ''u1''\<rparr>" and i: "user_id \<lparr>user_id = ''u1''\<rparr> \<noteq> []"
    and e: "editing createEnv = None" and w: "writtenId createEnv = ''r1''"
    by (simp_all add: createEnv_def editing_def writtenId_def)
  have wps: "waypoints untitledScreen =
     [\<lparr>latitude = 37.0, longitude = - 122.0, title = [], description = ''Searched location''\<rparr>]"
    by (simp add: untitledScreen_def handleLocationSelect_def bareResult_def namedScreen_def
        initialScreen_def addressTitle_def filter_Boolean_def List.map_filter_def Let_def)
  have n: "trim (fd_name (formData untitledScreen)) \<noteq> []"
    by (simp add: untitledScreen_def handleLocationSelect_def bareResult_def namedScreen_def
        Let_def example_names)
  have x: "\<forall>i. editing createEnv = Some i \<longrightarrow> routes emptyBackend i \<noteq> None"
    by (simp add: e)
  have h: "handleCreate createEnv emptyBackend untitledScreen =
      (fst (handleCreate createEnv emptyBackend untitledScreen),
       fst (snd (handleCreate createEnv emptyBackend untitledScreen)),
       snd (snd (handleCreate createEnv emptyBackend untitledScreen)))"
    by simp
  have "waypoints (loadRouteData loadEnv
       (fst (snd (handleCreate createEnv emptyBackend untitledScreen))) (writtenId createEnv)
       initialScreen) = relabelled (waypoints untitledScreen)"
    using loadRouteData_waypoints [OF handleCreate_waypointColumn [OF u i n x h]]
    by (simp add: toWaypoint_waypointDetails)
  then show ?thesis
    unfolding w wps
    by (simp add: relabelled_def indexed_def or_else_def waypointLabel_1)
qed

section \<open>The title of a new waypoint\<close>






end
